theory Spec2Isabelle
  imports Main "HOL-Library.Word" "HOL-Library.Sublist"
begin

unbundle bit_operations_syntax

section \<open>Machine types and constants of SDL\_xboxjoystick.c\<close>

text \<open>
  The C integer types of the driver are words of their width. A signed type is the
  word of the same width read through \<open>sint\<close>; an unsigned one is read through
  \<open>uint\<close> or \<open>unat\<close>. Where C promotes an operand to \<open>int\<close> before an
  operation, the model does the operation on \<open>int\<close>.
\<close>

type_synonym Uint8 = "8 word"
type_synonym Uint16 = "16 word"
type_synonym Sint16 = "16 word"
type_synonym Uint32 = "32 word"
type_synonym Sint32 = "32 word"

definition MAX_PACKET_SIZE :: nat where
  "MAX_PACKET_SIZE = 32"

definition BUTTON_DEADZONE :: Uint8 where
  "BUTTON_DEADZONE = 0x20"

definition XINPUT_GAMEPAD_DPAD_UP :: Uint16 where
  "XINPUT_GAMEPAD_DPAD_UP = 0x0001"

definition XINPUT_GAMEPAD_DPAD_DOWN :: Uint16 where
  "XINPUT_GAMEPAD_DPAD_DOWN = 0x0002"

definition XINPUT_GAMEPAD_DPAD_LEFT :: Uint16 where
  "XINPUT_GAMEPAD_DPAD_LEFT = 0x0004"

definition XINPUT_GAMEPAD_DPAD_RIGHT :: Uint16 where
  "XINPUT_GAMEPAD_DPAD_RIGHT = 0x0008"

definition XINPUT_GAMEPAD_START :: Uint16 where
  "XINPUT_GAMEPAD_START = 0x0010"

definition XINPUT_GAMEPAD_BACK :: Uint16 where
  "XINPUT_GAMEPAD_BACK = 0x0020"

definition XINPUT_GAMEPAD_LEFT_THUMB :: Uint16 where
  "XINPUT_GAMEPAD_LEFT_THUMB = 0x0040"

definition XINPUT_GAMEPAD_RIGHT_THUMB :: Uint16 where
  "XINPUT_GAMEPAD_RIGHT_THUMB = 0x0080"

definition XINPUT_GAMEPAD_LEFT_SHOULDER :: Uint16 where
  "XINPUT_GAMEPAD_LEFT_SHOULDER = 0x0100"

definition XINPUT_GAMEPAD_RIGHT_SHOULDER :: Uint16 where
  "XINPUT_GAMEPAD_RIGHT_SHOULDER = 0x0200"

definition XINPUT_GAMEPAD_A :: Uint16 where
  "XINPUT_GAMEPAD_A = 0x1000"

definition XINPUT_GAMEPAD_B :: Uint16 where
  "XINPUT_GAMEPAD_B = 0x2000"

definition XINPUT_GAMEPAD_X :: Uint16 where
  "XINPUT_GAMEPAD_X = 0x4000"

definition XINPUT_GAMEPAD_Y :: Uint16 where
  "XINPUT_GAMEPAD_Y = 0x8000"

text \<open>
  The hat positions and button states of SDL's public header SDL\_joystick.h and
  SDL\_events.h, which the driver includes; the header is not part of the driver file.
\<close>

definition SDL_HAT_CENTERED :: Uint8 where
  "SDL_HAT_CENTERED = 0x00"

definition SDL_HAT_UP :: Uint8 where
  "SDL_HAT_UP = 0x01"

definition SDL_HAT_RIGHT :: Uint8 where
  "SDL_HAT_RIGHT = 0x02"

definition SDL_HAT_DOWN :: Uint8 where
  "SDL_HAT_DOWN = 0x04"

definition SDL_HAT_LEFT :: Uint8 where
  "SDL_HAT_LEFT = 0x08"

definition SDL_RELEASED :: Uint8 where
  "SDL_RELEASED = 0"

definition SDL_PRESSED :: Uint8 where
  "SDL_PRESSED = 1"

section \<open>Data model\<close>

text \<open>
  The family tag \<open>hdev->type\<close>. The driver names four tags; every other value
  of the field is \<open>OTHER_HID n\<close>.
\<close>

datatype hid_type =
    XBOXOG_CONTROLLER
  | XBOX360_WIRED
  | XBOX360_WIRELESS
  | XBOXONE
  | OTHER_HID nat

text \<open>\<open>struct _XINPUT_GAMEPAD\<close>.\<close>

record XINPUT_GAMEPAD =
  wButtons :: Uint16
  bLeftTrigger :: Uint8
  bRightTrigger :: Uint8
  sThumbLX :: Sint16
  sThumbLY :: Sint16
  sThumbRX :: Sint16
  sThumbRY :: Sint16

text \<open>
  The fields of \<open>HID_DEV_T\<close> that the driver reads or writes. \<open>user_data\<close> is
  the address of the \<open>SDL_Joystick\<close> the device is bound to (\<open>None\<close> for NULL);
  \<open>read_func\<close> says whether an interrupt-read callback is installed.
\<close>

record HID_DEV_T =
  uid :: Uint32
  dev_type :: hid_type
  idVendor :: Uint16
  idProduct :: Uint16
  user_data :: "nat option"
  read_func :: bool

text \<open>
  \<open>struct joystick_hwdata\<close>. \<open>hdev\<close> is the position of the device in the
  transport's device list (\<open>None\<close> for NULL); \<open>raw_data\<close> is the array of
  \<open>MAX_PACKET_SIZE\<close> bytes; \<open>current_rumble\<close> is the array of two magnitudes.
\<close>

record joystick_hwdata =
  hdev :: "nat option"
  raw_data :: "Uint8 list"
  current_rumble :: "Uint16 \<times> Uint16"
  rumble_expiry :: Uint32

text \<open>
  The pointer \<open>joystick->hwdata\<close>: NULL, a live allocation, or an allocation that
  has been passed to \<open>SDL_free\<close> while the pointer was kept.
\<close>

datatype hw_ptr = HwNull | HwLive joystick_hwdata | HwFreed

text \<open>
  The fields of \<open>SDL_Joystick\<close> that the driver reads or writes. The arrays
  \<open>hats\<close>, \<open>buttons\<close> and \<open>axes\<close> are reached through pointers; each is
  the function from the index to the cell (for \<open>axes\<close>, to the cell's
  \<open>value\<close>).
\<close>

record SDL_Joystick =
  hwdata :: hw_ptr
  player_index :: int
  guid :: "Uint8 list"
  naxes :: int
  nballs :: int
  nhats :: int
  nbuttons :: int
  hats :: "nat \<Rightarrow> Uint8"
  buttons :: "nat \<Rightarrow> Uint8"
  axes :: "nat \<Rightarrow> Sint16"

text \<open>A change notification handed to the host framework.\<close>

datatype event =
    HatEvent nat Uint8
  | ButtonEvent nat Uint8
  | AxisEvent nat Sint16

section \<open>Report decoder: \<open>xboxjoy_parse_input_data\<close>\<close>

text \<open>
  \<open>*((Uint16*)&rdata[k])\<close> on the little-endian target: byte \<open>k\<close> is the low
  byte.
\<close>

definition rd16 :: "Uint8 list \<Rightarrow> nat \<Rightarrow> Uint16" where
  "rd16 rdata k = ucast (rdata ! k) OR push_bit 8 (ucast (rdata ! (k + 1)))"

text \<open>
  A run of lines \<open>if (wButtons & (1 << k)) controller->wButtons |= m;\<close>, one
  per pair \<open>(k, m)\<close> of the table, in order.
\<close>

definition map_bits :: "(nat \<times> Uint16) list \<Rightarrow> Uint16 \<Rightarrow> Uint16 \<Rightarrow> Uint16" where
  "map_bits tbl wB acc =
     fold (\<lambda>(k, m) c. if wB AND push_bit k 1 \<noteq> 0 then c OR m else c) tbl acc"

text \<open>
  A line \<open>if (rdata[k] > BUTTON_DEADZONE) controller->wButtons |= m;\<close>.
\<close>

definition analog_button :: "Uint8 list \<Rightarrow> nat \<Rightarrow> Uint16 \<Rightarrow> Uint16 \<Rightarrow> Uint16" where
  "analog_button rdata k m c = (if rdata ! k > BUTTON_DEADZONE then c OR m else c)"

text \<open>
  The decoder returns 0 (here \<open>None\<close>) for a NULL device and for a family tag it
  does not know, and 1 with every field of \<open>controller\<close> written otherwise.
\<close>

definition xboxjoy_parse_input_data ::
  "HID_DEV_T option \<Rightarrow> Uint8 list \<Rightarrow> XINPUT_GAMEPAD option" where
  "xboxjoy_parse_input_data dv rdata =
     (case dv of
        None \<Rightarrow> None
      | Some d \<Rightarrow>
          (case dev_type d of
             XBOXOG_CONTROLLER \<Rightarrow>
               Some \<lparr> wButtons =
                        analog_button rdata 9 XINPUT_GAMEPAD_LEFT_SHOULDER
                        (analog_button rdata 8 XINPUT_GAMEPAD_RIGHT_SHOULDER
                        (analog_button rdata 7 XINPUT_GAMEPAD_Y
                        (analog_button rdata 6 XINPUT_GAMEPAD_X
                        (analog_button rdata 5 XINPUT_GAMEPAD_B
                        (analog_button rdata 4 XINPUT_GAMEPAD_A
                        (map_bits
                           [(0, XINPUT_GAMEPAD_DPAD_UP),
                            (1, XINPUT_GAMEPAD_DPAD_DOWN),
                            (2, XINPUT_GAMEPAD_DPAD_LEFT),
                            (3, XINPUT_GAMEPAD_DPAD_RIGHT),
                            (4, XINPUT_GAMEPAD_START),
                            (5, XINPUT_GAMEPAD_BACK),
                            (6, XINPUT_GAMEPAD_LEFT_THUMB),
                            (7, XINPUT_GAMEPAD_RIGHT_THUMB)]
                           (rd16 rdata 2) 0)))))),
                      bLeftTrigger = rdata ! 10,
                      bRightTrigger = rdata ! 11,
                      sThumbLX = rd16 rdata 12,
                      sThumbLY = rd16 rdata 14,
                      sThumbRX = rd16 rdata 16,
                      sThumbRY = rd16 rdata 18 \<rparr>
           | XBOX360_WIRED \<Rightarrow>
               Some \<lparr> wButtons =
                        map_bits
                          [(0, XINPUT_GAMEPAD_DPAD_UP),
                           (1, XINPUT_GAMEPAD_DPAD_DOWN),
                           (2, XINPUT_GAMEPAD_DPAD_LEFT),
                           (3, XINPUT_GAMEPAD_DPAD_RIGHT),
                           (4, XINPUT_GAMEPAD_START),
                           (5, XINPUT_GAMEPAD_BACK),
                           (6, XINPUT_GAMEPAD_LEFT_THUMB),
                           (7, XINPUT_GAMEPAD_RIGHT_THUMB),
                           (8, XINPUT_GAMEPAD_LEFT_SHOULDER),
                           (9, XINPUT_GAMEPAD_RIGHT_SHOULDER),
                           (12, XINPUT_GAMEPAD_A),
                           (13, XINPUT_GAMEPAD_B),
                           (14, XINPUT_GAMEPAD_X),
                           (15, XINPUT_GAMEPAD_Y)]
                          (rd16 rdata 2) 0,
                      bLeftTrigger = rdata ! 4,
                      bRightTrigger = rdata ! 5,
                      sThumbLX = rd16 rdata 6,
                      sThumbLY = rd16 rdata 8,
                      sThumbRX = rd16 rdata 10,
                      sThumbRY = rd16 rdata 12 \<rparr>
           | XBOX360_WIRELESS \<Rightarrow>
               Some \<lparr> wButtons =
                        map_bits
                          [(0, XINPUT_GAMEPAD_DPAD_UP),
                           (1, XINPUT_GAMEPAD_DPAD_DOWN),
                           (2, XINPUT_GAMEPAD_DPAD_LEFT),
                           (3, XINPUT_GAMEPAD_DPAD_RIGHT),
                           (4, XINPUT_GAMEPAD_START),
                           (5, XINPUT_GAMEPAD_BACK),
                           (6, XINPUT_GAMEPAD_LEFT_THUMB),
                           (7, XINPUT_GAMEPAD_RIGHT_THUMB),
                           (8, XINPUT_GAMEPAD_LEFT_SHOULDER),
                           (9, XINPUT_GAMEPAD_RIGHT_SHOULDER),
                           (12, XINPUT_GAMEPAD_A),
                           (13, XINPUT_GAMEPAD_B),
                           (14, XINPUT_GAMEPAD_X),
                           (15, XINPUT_GAMEPAD_Y)]
                          (rd16 rdata 6) 0,
                      bLeftTrigger = rdata ! 8,
                      bRightTrigger = rdata ! 9,
                      sThumbLX = rd16 rdata 10,
                      sThumbLY = rd16 rdata 12,
                      sThumbRX = rd16 rdata 14,
                      sThumbRY = rd16 rdata 16 \<rparr>
           | XBOXONE \<Rightarrow>
               Some \<lparr> wButtons =
                        map_bits
                          [(8, XINPUT_GAMEPAD_DPAD_UP),
                           (9, XINPUT_GAMEPAD_DPAD_DOWN),
                           (10, XINPUT_GAMEPAD_DPAD_LEFT),
                           (11, XINPUT_GAMEPAD_DPAD_RIGHT),
                           (2, XINPUT_GAMEPAD_START),
                           (3, XINPUT_GAMEPAD_BACK),
                           (14, XINPUT_GAMEPAD_LEFT_THUMB),
                           (15, XINPUT_GAMEPAD_RIGHT_THUMB),
                           (12, XINPUT_GAMEPAD_LEFT_SHOULDER),
                           (13, XINPUT_GAMEPAD_RIGHT_SHOULDER),
                           (4, XINPUT_GAMEPAD_A),
                           (5, XINPUT_GAMEPAD_B),
                           (6, XINPUT_GAMEPAD_X),
                           (7, XINPUT_GAMEPAD_Y)]
                          (rd16 rdata 4) 0,
                      bLeftTrigger = rdata ! 6,
                      bRightTrigger = rdata ! 8,
                      sThumbLX = rd16 rdata 10,
                      sThumbLY = rd16 rdata 12,
                      sThumbRX = rd16 rdata 14,
                      sThumbRY = rd16 rdata 16 \<rparr>
           | OTHER_HID n \<Rightarrow> None))"

section \<open>Host framework sinks\<close>

text \<open>
  The three sinks \<open>SDL_PrivateJoystickHat\<close>, \<open>SDL_PrivateJoystickButton\<close> and
  \<open>SDL_PrivateJoystickAxis\<close> belong to the host input framework, outside the
  driver file. The state they work on is the joystick together with the
  notifications the driver has handed over so far in this tick.
\<close>

text \<open>
  Modelled from the spec: \<open>SDL_PrivateJoystickHat\<close> is not in the driver file.
  The spec has the driver produce change notifications that the framework relays,
  and has the stored previous snapshot become the current value: the sink appends
  the notification it is called with and stores the value in \<open>joystick->hats[h]\<close>.
\<close>

definition SDL_PrivateJoystickHat ::
  "SDL_Joystick \<times> event list \<Rightarrow> nat \<Rightarrow> Uint8 \<Rightarrow> SDL_Joystick \<times> event list" where
  "SDL_PrivateJoystickHat s h v =
     ((fst s)\<lparr>hats := (hats (fst s))(h := v)\<rparr>, snd s @ [HatEvent h v])"

text \<open>
  Modelled from the spec: \<open>SDL_PrivateJoystickButton\<close> is not in the driver file.
  As for the hat, the sink appends the notification it is called with and stores
  the state in \<open>joystick->buttons[b]\<close>.
\<close>

definition SDL_PrivateJoystickButton ::
  "SDL_Joystick \<times> event list \<Rightarrow> nat \<Rightarrow> Uint8 \<Rightarrow> SDL_Joystick \<times> event list" where
  "SDL_PrivateJoystickButton s b v =
     ((fst s)\<lparr>buttons := (buttons (fst s))(b := v)\<rparr>, snd s @ [ButtonEvent b v])"

text \<open>
  Modelled from the spec: \<open>SDL_PrivateJoystickAxis\<close> is not in the driver file.
  As for the hat, the sink appends the notification it is called with and stores
  the value in \<open>joystick->axes[a].value\<close>.
\<close>

definition SDL_PrivateJoystickAxis ::
  "SDL_Joystick \<times> event list \<Rightarrow> nat \<Rightarrow> Sint16 \<Rightarrow> SDL_Joystick \<times> event list" where
  "SDL_PrivateJoystickAxis s a v =
     ((fst s)\<lparr>axes := (axes (fst s))(a := v)\<rparr>, snd s @ [AxisEvent a v])"

section \<open>State differ: the body of \<open>SDL_XBOX_JoystickUpdate\<close>\<close>

text \<open>
  The hat value built from the four d-pad bits of the local \<open>Sint16 wButtons\<close>.
  The operand of \<open>&\<close> is promoted to \<open>int\<close>, with its sign.
\<close>

definition hat_of :: "Sint16 \<Rightarrow> Uint8" where
  "hat_of wB =
     (let hat = SDL_HAT_CENTERED;
          hat = (if sint wB AND uint XINPUT_GAMEPAD_DPAD_UP \<noteq> 0 then hat OR SDL_HAT_UP else hat);
          hat = (if sint wB AND uint XINPUT_GAMEPAD_DPAD_DOWN \<noteq> 0 then hat OR SDL_HAT_DOWN else hat);
          hat = (if sint wB AND uint XINPUT_GAMEPAD_DPAD_LEFT \<noteq> 0 then hat OR SDL_HAT_LEFT else hat);
          hat = (if sint wB AND uint XINPUT_GAMEPAD_DPAD_RIGHT \<noteq> 0 then hat OR SDL_HAT_RIGHT else hat)
      in hat)"

definition btn_map :: "(nat \<times> Uint16) list" where
  "btn_map =
     [(0, XINPUT_GAMEPAD_A),
      (1, XINPUT_GAMEPAD_B),
      (2, XINPUT_GAMEPAD_X),
      (3, XINPUT_GAMEPAD_Y),
      (4, XINPUT_GAMEPAD_LEFT_SHOULDER),
      (5, XINPUT_GAMEPAD_RIGHT_SHOULDER),
      (6, XINPUT_GAMEPAD_BACK),
      (7, XINPUT_GAMEPAD_START),
      (8, XINPUT_GAMEPAD_LEFT_THUMB),
      (9, XINPUT_GAMEPAD_RIGHT_THUMB)]"

text \<open>One pass of the loop over \<open>btn_map\<close>.\<close>

definition button_step ::
  "Sint16 \<Rightarrow> nat \<times> Uint16 \<Rightarrow> SDL_Joystick \<times> event list \<Rightarrow> SDL_Joystick \<times> event list" where
  "button_step wB bm s =
     (if uint (buttons (fst s) (fst bm)) \<noteq> (if 0 < (sint wB AND uint (snd bm)) then 1 else 0)
      then SDL_PrivateJoystickButton s (fst bm)
             (if sint wB AND uint (snd bm) \<noteq> 0 then SDL_PRESSED else SDL_RELEASED)
      else s)"

text \<open>
  \<open>((t << 8) | t) - (1 << 15)\<close>, computed on \<open>int\<close> and passed as the
  \<open>Sint16\<close> argument of the axis sink.
\<close>

definition trigger_axis :: "Uint8 \<Rightarrow> Sint16" where
  "trigger_axis t = word_of_int ((push_bit 8 (uint t) OR uint t) - push_bit 15 1)"

text \<open>
  The statements of the block guarded by \<open>if (xboxjoy_parse_input_data(...))\<close>,
  each a comparison with the joystick's stored cell followed by a call of the sink:
  \<open>if (hat != joystick->hats[0]) SDL_PrivateJoystickHat(joystick, 0, hat);\<close>
\<close>

definition hat_check ::
  "Uint8 \<Rightarrow> SDL_Joystick \<times> event list \<Rightarrow> SDL_Joystick \<times> event list" where
  "hat_check hat s =
     (if uint hat \<noteq> uint (hats (fst s) 0) then SDL_PrivateJoystickHat s 0 hat else s)"

text \<open>
  \<open>if (t != joystick->axes[a].value)
  SDL_PrivateJoystickAxis(joystick, a, ((t << 8) | t) - (1 << 15));\<close>
  for a trigger byte \<open>t\<close>: the \<open>Uint8\<close> and the \<open>Sint16\<close> cell are compared
  as \<open>int\<close>.
\<close>

definition trigger_check ::
  "nat \<Rightarrow> Uint8 \<Rightarrow> SDL_Joystick \<times> event list \<Rightarrow> SDL_Joystick \<times> event list" where
  "trigger_check a t s =
     (if uint t \<noteq> sint (axes (fst s) a)
      then SDL_PrivateJoystickAxis s a (trigger_axis t) else s)"

text \<open>
  \<open>axis = v; if (axis != joystick->axes[a].value)
  SDL_PrivateJoystickAxis(joystick, a, axis);\<close> for an X axis.
\<close>

definition stick_x_check ::
  "nat \<Rightarrow> Sint16 \<Rightarrow> SDL_Joystick \<times> event list \<Rightarrow> SDL_Joystick \<times> event list" where
  "stick_x_check a v s =
     (if sint v \<noteq> sint (axes (fst s) a) then SDL_PrivateJoystickAxis s a v else s)"

text \<open>
  \<open>axis = v; if (axis != joystick->axes[a].value)
  SDL_PrivateJoystickAxis(joystick, a, ~axis);\<close> for a Y axis.
\<close>

definition stick_y_check ::
  "nat \<Rightarrow> Sint16 \<Rightarrow> SDL_Joystick \<times> event list \<Rightarrow> SDL_Joystick \<times> event list" where
  "stick_y_check a v s =
     (if sint v \<noteq> sint (axes (fst s) a) then SDL_PrivateJoystickAxis s a (NOT v) else s)"

text \<open>
  The block: hat, buttons, triggers, sticks, in the order of the source. The state
  is the joystick and the notifications handed to the sinks so far.
\<close>

definition report_changes ::
  "XINPUT_GAMEPAD \<Rightarrow> SDL_Joystick \<times> event list \<Rightarrow> SDL_Joystick \<times> event list" where
  "report_changes xpad s0 =
     (let wB = wButtons xpad;
          s = hat_check (hat_of wB) s0;
          s = fold (button_step wB) btn_map s;
          s = trigger_check 2 (bLeftTrigger xpad) s;
          s = trigger_check 5 (bRightTrigger xpad) s;
          s = stick_x_check 0 (sThumbLX xpad) s;
          s = stick_y_check 1 (sThumbLY xpad) s;
          s = stick_x_check 3 (sThumbRX xpad) s;
          s = stick_y_check 4 (sThumbRY xpad) s
      in s)"

section \<open>The world the driver runs in\<close>

text \<open>
  A run of the driver either returns or stops at a fault: a failed \<open>assert\<close>,
  a dereference of a pointer that is NULL, freed or not an object, or a copy
  that does not fit its destination array.
\<close>

datatype fault = AssertFailed | BadPointer | BufferOverrun

text \<open>
  \<open>devs\<close> is the transport's device list (\<open>usbh_hid_get_device_list\<close>) in
  list order; a device pointer is a position in it. \<open>joys\<close> holds the
  \<open>SDL_Joystick\<close> objects by address. \<open>wire\<close> is the sequence of interrupt
  writes handed to \<open>usbh_hid_int_write\<close> so far, each with its device and the
  \<open>len\<close> bytes of the packet.
\<close>

record world =
  devs :: "HID_DEV_T list"
  joys :: "nat \<Rightarrow> SDL_Joystick option"
  wire :: "(nat \<times> Uint8 list) list"

text \<open>
  \<open>SDL_memcpy(dst, src, n)\<close> into an array \<open>dst\<close> from the bytes at a pointer
  \<open>src\<close> (the function from the offset to the byte).
\<close>

definition SDL_memcpy :: "Uint8 list \<Rightarrow> (nat \<Rightarrow> Uint8) \<Rightarrow> nat \<Rightarrow> fault + Uint8 list" where
  "SDL_memcpy dst src n =
     (if n \<le> length dst then Inr (map src [0..<n] @ drop n dst) else Inl BufferOverrun)"

section \<open>Validator and report buffer: \<open>xboxjoy_int_read_callback\<close>\<close>

text \<open>
  The \<open>switch (hdev->type)\<close> of the callback: \<open>False\<close> where the code
  returns, \<open>True\<close> where it breaks out to the copy.
\<close>

definition is_button_report :: "hid_type \<Rightarrow> (nat \<Rightarrow> Uint8) \<Rightarrow> bool" where
  "is_button_report t rdata =
     (case t of
        XBOXOG_CONTROLLER \<Rightarrow> \<not> (rdata 1 < 0x14)
      | XBOX360_WIRED \<Rightarrow> \<not> (rdata 1 < 0x14)
      | XBOX360_WIRELESS \<Rightarrow> \<not> (rdata 1 AND 0x01 = 0 \<or> rdata 5 \<noteq> 0x13)
      | XBOXONE \<Rightarrow> \<not> (rdata 0 \<noteq> 0x20)
      | OTHER_HID n \<Rightarrow> False)"

text \<open>
  \<open>rdata\<close> points into the transport's receive buffer; \<open>data_len\<close> is the
  length the transport reports.
\<close>

definition xboxjoy_int_read_callback ::
  "world \<Rightarrow> nat option \<Rightarrow> Uint16 \<Rightarrow> Sint32 \<Rightarrow> (nat \<Rightarrow> Uint8) \<Rightarrow> Uint32 \<Rightarrow> fault + world" where
  "xboxjoy_int_read_callback w hd_ptr ep_addr status rdata data_len =
     (if sint status < 0 then Inr w
      else case hd_ptr of
        None \<Rightarrow> Inr w
      | Some p \<Rightarrow>
          if length (devs w) \<le> p then Inl BadPointer
          else case user_data (devs w ! p) of
            None \<Rightarrow> Inr w
          | Some a \<Rightarrow>
              if \<not> is_button_report (dev_type (devs w ! p)) rdata then Inr w
              else case joys w a of
                None \<Rightarrow> Inl BadPointer
              | Some joy \<Rightarrow>
                  (case hwdata joy of
                     HwLive h \<Rightarrow>
                       (case SDL_memcpy (raw_data h) rdata
                               (if unat data_len > MAX_PACKET_SIZE
                                then MAX_PACKET_SIZE else unat data_len) of
                          Inl f \<Rightarrow> Inl f
                        | Inr buf \<Rightarrow>
                            Inr (w\<lparr>joys := (joys w)(a \<mapsto>
                                   joy\<lparr>hwdata := HwLive (h\<lparr>raw_data := buf\<rparr>)\<rparr>)\<rparr>))
                   | HwNull \<Rightarrow> Inl BadPointer
                   | HwFreed \<Rightarrow> Inl BadPointer))"

section \<open>Rumble encoder: \<open>xboxjoy_rumble\<close>\<close>

definition xbox360_wireless :: "Uint8 list" where
  "xbox360_wireless = [0x00, 0x01, 0x0F, 0xC0, 0x00, 0x00, 0x00, 0x00]"

definition xbox360_wired :: "Uint8 list" where
  "xbox360_wired = [0x00, 0x08, 0x00, 0x00, 0x00, 0x00, 0x00, 0x00]"

definition xbox_og :: "Uint8 list" where
  "xbox_og = [0x00, 0x06, 0x00, 0x00, 0x00, 0x00]"

definition xbox_one :: "Uint8 list" where
  "xbox_one = [0x09, 0x00, 0x00, 0x09, 0x00, 0x0f, 0x00, 0x00, 0x00, 0x00, 0xFF, 0x00, 0xEB]"

text \<open>
  The \<open>switch (hdev->type)\<close> of the encoder: the first \<open>len\<close> bytes of
  \<open>writeBuf\<close> after the template is copied in and the magnitude bytes are
  stored, or \<open>None\<close> where the code returns -1. A store into a \<open>Uint8\<close>
  keeps the low byte of the \<open>int\<close> it is given.
\<close>

definition rumble_packet :: "hid_type \<Rightarrow> Uint16 \<Rightarrow> Uint16 \<Rightarrow> Uint8 list option" where
  "rumble_packet t low_frequency_rumble high_frequency_rumble =
     (case t of
        XBOX360_WIRELESS \<Rightarrow>
          Some (xbox360_wireless
                  [5 := ucast (drop_bit 8 low_frequency_rumble),
                   6 := ucast (drop_bit 8 high_frequency_rumble)])
      | XBOX360_WIRED \<Rightarrow>
          Some (xbox360_wired
                  [3 := ucast (drop_bit 8 low_frequency_rumble),
                   4 := ucast (drop_bit 8 high_frequency_rumble)])
      | XBOXOG_CONTROLLER \<Rightarrow>
          Some (xbox_og
                  [2 := ucast (low_frequency_rumble AND 0xFF),
                   3 := ucast (drop_bit 8 low_frequency_rumble),
                   4 := ucast (high_frequency_rumble AND 0xFF),
                   5 := ucast (drop_bit 8 high_frequency_rumble)])
      | XBOXONE \<Rightarrow>
          Some (xbox_one
                  [8 := ucast (low_frequency_rumble div 655),
                   9 := ucast (high_frequency_rumble div 655)])
      | OTHER_HID n \<Rightarrow> None)"

text \<open>
  \<open>tx_ok\<close> says whether \<open>usbh_hid_int_write\<close> returns \<open>HID_RET_OK\<close> for this
  write. The result is the function's return value and the world after it.
\<close>

definition xboxjoy_rumble ::
  "bool \<Rightarrow> world \<Rightarrow> nat \<Rightarrow> Uint16 \<Rightarrow> Uint16 \<Rightarrow> fault + (int \<times> world)" where
  "xboxjoy_rumble tx_ok w p low_frequency_rumble high_frequency_rumble =
     (if length (devs w) \<le> p then Inl BadPointer
      else case rumble_packet (dev_type (devs w ! p))
                  low_frequency_rumble high_frequency_rumble of
        None \<Rightarrow> Inr (- 1, w)
      | Some pkt \<Rightarrow>
          Inr (if tx_ok then 0 else - 1, w\<lparr>wire := wire w @ [(p, pkt)]\<rparr>))"

section \<open>Device slot registry: \<open>hdev_from_device_index\<close> and \<open>SDL_XBOX_JoystickOpen\<close>\<close>

definition is_gamepad :: "HID_DEV_T \<Rightarrow> bool" where
  "is_gamepad d =
     (dev_type d = XBOXOG_CONTROLLER \<or> dev_type d = XBOXONE \<or>
      dev_type d = XBOX360_WIRED \<or> dev_type d = XBOX360_WIRELESS)"

text \<open>
  How the \<open>while\<close> loop of \<open>hdev_from_device_index\<close> ends: by the
  \<open>return hdev\<close> inside it, or by its condition failing, with the value
  \<open>hdev\<close> has then.
\<close>

datatype scan_end = Returned nat | LoopExit "nat option"

text \<open>
  The loop, from the node at position \<open>p\<close> on (\<open>ds\<close> are that node and its
  successors). \<open>i\<close> never exceeds \<open>device_index\<close> when it is incremented, so
  the \<open>Sint32\<close> counter does not overflow and both are plain integers.
\<close>

fun scan_devices :: "HID_DEV_T list \<Rightarrow> nat \<Rightarrow> int \<Rightarrow> int \<Rightarrow> scan_end" where
  "scan_devices [] p i device_index = LoopExit None"
| "scan_devices (d # ds) p i device_index =
     (if i \<le> device_index then
        (if is_gamepad d then
           (if i = device_index then Returned p
            else scan_devices ds (Suc p) (i + 1) device_index)
         else scan_devices ds (Suc p) i device_index)
      else LoopExit (Some p))"

text \<open>
  \<open>ndebug\<close> says whether the driver is compiled with \<open>NDEBUG\<close>, which turns
  \<open>assert\<close> into nothing; without it \<open>assert(0)\<close> aborts.
\<close>

definition hdev_from_device_index :: "bool \<Rightarrow> HID_DEV_T list \<Rightarrow> int \<Rightarrow> fault + nat option" where
  "hdev_from_device_index ndebug ds device_index =
     (case scan_devices ds 0 0 device_index of
        Returned p \<Rightarrow> Inr (Some p)
      | LoopExit h \<Rightarrow> if ndebug then Inr h else Inl AssertFailed)"

definition SDL_XBOX_JoystickGetDevicePlayerIndex :: "bool \<Rightarrow> HID_DEV_T list \<Rightarrow> int \<Rightarrow> fault + int" where
  "SDL_XBOX_JoystickGetDevicePlayerIndex ndebug ds device_index =
     (case hdev_from_device_index ndebug ds device_index of
        Inl f \<Rightarrow> Inl f
      | Inr None \<Rightarrow> Inr (- 1)
      | Inr (Some p) \<Rightarrow> Inr device_index)"

definition SDL_XBOX_JoystickGetDeviceGUID ::
  "bool \<Rightarrow> HID_DEV_T list \<Rightarrow> int \<Rightarrow> fault + Uint8 list" where
  "SDL_XBOX_JoystickGetDeviceGUID ndebug ds device_index =
     (case hdev_from_device_index ndebug ds device_index of
        Inl f \<Rightarrow> Inl f
      | Inr None \<Rightarrow> Inr (replicate 16 0)
      | Inr (Some p) \<Rightarrow>
          Inr ((replicate 16 0)
                 [0 := 0x03,
                  4 := ucast (idVendor (ds ! p) AND 0xFF),
                  5 := ucast (drop_bit 8 (idVendor (ds ! p)) AND 0xFF),
                  8 := ucast (idProduct (ds ! p) AND 0xFF),
                  9 := ucast (drop_bit 8 (idProduct (ds ! p)) AND 0xFF)]))"

text \<open>\<open>SDL_zerop(joystick->hwdata)\<close> followed by \<open>hwdata->hdev = hdev\<close>.\<close>

definition fresh_hwdata :: "nat \<Rightarrow> joystick_hwdata" where
  "fresh_hwdata p =
     \<lparr> hdev = Some p, raw_data = replicate MAX_PACKET_SIZE 0,
       current_rumble = (0, 0), rumble_expiry = 0 \<rparr>"

text \<open>
  \<open>malloc_ok\<close> says whether \<open>SDL_malloc\<close> returns memory. The interrupt read
  is started by \<open>usbh_hid_start_int_read\<close>, of the transport: it installs the
  callback on the device. The result is the return value and the world.
\<close>

definition SDL_XBOX_JoystickOpen ::
  "bool \<Rightarrow> bool \<Rightarrow> world \<Rightarrow> nat \<Rightarrow> int \<Rightarrow> fault + (int \<times> world)" where
  "SDL_XBOX_JoystickOpen ndebug malloc_ok w joystick device_index =
     (case hdev_from_device_index ndebug (devs w) device_index of
        Inl f \<Rightarrow> Inl f
      | Inr None \<Rightarrow> Inr (- 1, w)
      | Inr (Some p) \<Rightarrow>
          (case joys w joystick of
             None \<Rightarrow> Inl BadPointer
           | Some j \<Rightarrow>
               if \<not> malloc_ok then Inl (if ndebug then BadPointer else AssertFailed)
               else
                 (case SDL_XBOX_JoystickGetDevicePlayerIndex ndebug (devs w) device_index of
                    Inl f \<Rightarrow> Inl f
                  | Inr pl \<Rightarrow>
                      (case SDL_XBOX_JoystickGetDeviceGUID ndebug (devs w) device_index of
                         Inl f \<Rightarrow> Inl f
                       | Inr g \<Rightarrow>
                           (let ds = (devs w)[p := (devs w ! p)\<lparr>user_data := Some joystick\<rparr>];
                                j1 = j\<lparr>hwdata := HwLive (fresh_hwdata p),
                                       player_index := pl, guid := g\<rparr>
                            in if is_gamepad (devs w ! p)
                               then Inr (0,
                                      w\<lparr>devs := ds[p := (ds ! p)\<lparr>read_func := True\<rparr>],
                                        joys := (joys w)(joystick \<mapsto>
                                          j1\<lparr>naxes := 6, nballs := 0, nhats := 1,
                                             nbuttons := 10\<rparr>)\<rparr>)
                               else Inr (- 1,
                                      w\<lparr>devs := ds,
                                        joys := (joys w)(joystick \<mapsto>
                                          j1\<lparr>hwdata := HwFreed\<rparr>)\<rparr>))))))"

section \<open>Rumble request and expiry: \<open>SDL_XBOX_JoystickRumble\<close>, \<open>SDL_XBOX_JoystickUpdate\<close>\<close>

text \<open>\<open>now\<close> is what \<open>SDL_GetTicks()\<close> returns during the call.\<close>

definition SDL_XBOX_JoystickRumble ::
  "Uint32 \<Rightarrow> bool \<Rightarrow> world \<Rightarrow> nat \<Rightarrow> Uint16 \<Rightarrow> Uint16 \<Rightarrow> Uint32 \<Rightarrow> fault + (int \<times> world)" where
  "SDL_XBOX_JoystickRumble now tx_ok w joystick low_frequency_rumble high_frequency_rumble
       duration_ms =
     (case joys w joystick of
        None \<Rightarrow> Inl BadPointer
      | Some j \<Rightarrow>
          (case hwdata j of
             HwNull \<Rightarrow> Inl BadPointer
           | HwFreed \<Rightarrow> Inl BadPointer
           | HwLive h \<Rightarrow>
               if fst (current_rumble h) = low_frequency_rumble \<and>
                  snd (current_rumble h) = high_frequency_rumble
               then Inr (0, w\<lparr>joys := (joys w)(joystick \<mapsto>
                              j\<lparr>hwdata := HwLive (h\<lparr>rumble_expiry := now + duration_ms\<rparr>)\<rparr>)\<rparr>)
               else
                 (case hdev h of
                    None \<Rightarrow> Inl BadPointer
                  | Some p \<Rightarrow>
                      (case xboxjoy_rumble tx_ok w p low_frequency_rumble
                              high_frequency_rumble of
                         Inl f \<Rightarrow> Inl f
                       | Inr (ret, w1) \<Rightarrow>
                           if ret = - 1 then Inr (- 1, w1)
                           else Inr (0, w1\<lparr>joys := (joys w1)(joystick \<mapsto>
                                  j\<lparr>hwdata := HwLive (h\<lparr>
                                       current_rumble :=
                                         (low_frequency_rumble, high_frequency_rumble),
                                       rumble_expiry := now + duration_ms\<rparr>)\<rparr>)\<rparr>)))))"

text \<open>
  The rumble-timer block at the head of the update: the world and the hardware
  data after it.
\<close>

definition rumble_timer ::
  "Uint32 \<Rightarrow> bool \<Rightarrow> world \<Rightarrow> nat \<Rightarrow> joystick_hwdata \<Rightarrow> fault + (world \<times> joystick_hwdata)" where
  "rumble_timer now tx_ok w p h =
     (if rumble_expiry h \<noteq> 0 \<and> now > rumble_expiry h
      then (case xboxjoy_rumble tx_ok w p 0 0 of
              Inl f \<Rightarrow> Inl f
            | Inr (ret, w1) \<Rightarrow> Inr (w1, h\<lparr>rumble_expiry := 0\<rparr>))
      else Inr (w, h))"

text \<open>
  The update tick. The result is the world after it and the notifications the
  tick handed to the sinks, in call order.
\<close>

definition SDL_XBOX_JoystickUpdate ::
  "Uint32 \<Rightarrow> bool \<Rightarrow> world \<Rightarrow> nat option \<Rightarrow> fault + (world \<times> event list)" where
  "SDL_XBOX_JoystickUpdate now tx_ok w joystick =
     (case joystick of
        None \<Rightarrow> Inr (w, [])
      | Some a \<Rightarrow>
          (case joys w a of
             None \<Rightarrow> Inl BadPointer
           | Some j \<Rightarrow>
               (case hwdata j of
                  HwNull \<Rightarrow> Inr (w, [])
                | HwFreed \<Rightarrow> Inl BadPointer
                | HwLive h \<Rightarrow>
                    (case hdev h of
                       None \<Rightarrow> Inr (w, [])
                     | Some p \<Rightarrow>
                         (case rumble_timer now tx_ok w p h of
                            Inl f \<Rightarrow> Inl f
                          | Inr (w1, h1) \<Rightarrow>
                              if length (devs w1) \<le> p then Inl BadPointer else
                              (let button_data = raw_data h1;
                                   j1 = j\<lparr>hwdata := HwLive h1\<rparr>
                               in case xboxjoy_parse_input_data (Some (devs w1 ! p))
                                         button_data of
                                    None \<Rightarrow> Inr (w1\<lparr>joys := (joys w1)(a \<mapsto> j1)\<rparr>, [])
                                  | Some xpad \<Rightarrow>
                                      (case report_changes xpad (j1, []) of
                                         (j2, evs) \<Rightarrow>
                                           Inr (w1\<lparr>joys := (joys w1)(a \<mapsto> j2)\<rparr>,
                                                evs))))))))"

text \<open>\<open>SDL_XBOX_JoystickGetCount\<close>: the loop that counts the gamepads of the list.\<close>

fun count_pads :: "HID_DEV_T list \<Rightarrow> int \<Rightarrow> int" where
  "count_pads [] pad_cnt = pad_cnt"
| "count_pads (d # ds) pad_cnt =
     count_pads ds (if is_gamepad d then pad_cnt + 1 else pad_cnt)"

definition SDL_XBOX_JoystickGetCount :: "HID_DEV_T list \<Rightarrow> int" where
  "SDL_XBOX_JoystickGetCount ds = count_pads ds 0"

section \<open>Notions used to state the properties\<close>

text \<open>The logical input a notification is about.\<close>

datatype input_key = HatKey nat | ButtonKey nat | AxisKey nat

fun key_of :: "event \<Rightarrow> input_key" where
  "key_of (HatEvent h v) = HatKey h"
| "key_of (ButtonEvent b v) = ButtonKey b"
| "key_of (AxisEvent a v) = AxisKey a"

text \<open>
  The order in which the update visits the inputs: the hat, the buttons in the
  order of \<open>btn_map\<close>, the two triggers, the four stick axes.
\<close>

definition event_order :: "input_key list" where
  "event_order =
     [HatKey 0] @ map (\<lambda>bm. ButtonKey (fst bm)) btn_map @
     [AxisKey 2, AxisKey 5, AxisKey 0, AxisKey 1, AxisKey 3, AxisKey 4]"

text \<open>
  The notifications of one pass over a button table, and of one whole block, as
  functions of the cells stored before the block. They are proved below to be what
  \<open>report_changes\<close> hands to the sinks.
\<close>

definition button_events :: "Sint16 \<Rightarrow> (nat \<Rightarrow> Uint8) \<Rightarrow> (nat \<times> Uint16) list \<Rightarrow> event list" where
  "button_events wB bs tbl =
     concat (map (\<lambda>bm.
       if uint (bs (fst bm)) \<noteq> (if 0 < (sint wB AND uint (snd bm)) then 1 else 0)
       then [ButtonEvent (fst bm)
               (if sint wB AND uint (snd bm) \<noteq> 0 then SDL_PRESSED else SDL_RELEASED)]
       else []) tbl)"

definition tick_events :: "XINPUT_GAMEPAD \<Rightarrow> SDL_Joystick \<Rightarrow> event list" where
  "tick_events xpad j =
     (if uint (hat_of (wButtons xpad)) \<noteq> uint (hats j 0)
      then [HatEvent 0 (hat_of (wButtons xpad))] else []) @
     button_events (wButtons xpad) (buttons j) btn_map @
     (if uint (bLeftTrigger xpad) \<noteq> sint (axes j 2)
      then [AxisEvent 2 (trigger_axis (bLeftTrigger xpad))] else []) @
     (if uint (bRightTrigger xpad) \<noteq> sint (axes j 5)
      then [AxisEvent 5 (trigger_axis (bRightTrigger xpad))] else []) @
     (if sint (sThumbLX xpad) \<noteq> sint (axes j 0)
      then [AxisEvent 0 (sThumbLX xpad)] else []) @
     (if sint (sThumbLY xpad) \<noteq> sint (axes j 1)
      then [AxisEvent 1 (NOT (sThumbLY xpad))] else []) @
     (if sint (sThumbRX xpad) \<noteq> sint (axes j 3)
      then [AxisEvent 3 (sThumbRX xpad)] else []) @
     (if sint (sThumbRY xpad) \<noteq> sint (axes j 4)
      then [AxisEvent 4 (NOT (sThumbRY xpad))] else [])"

text \<open>
  The cells the block leaves behind, again as functions of the cells stored before
  it: each comparison that fires stores the value handed to the sink.
\<close>

definition button_cells :: "Sint16 \<Rightarrow> (nat \<times> Uint16) list \<Rightarrow> (nat \<Rightarrow> Uint8) \<Rightarrow> nat \<Rightarrow> Uint8" where
  "button_cells wB tbl bs =
     fold (\<lambda>bm cs.
       if uint (cs (fst bm)) \<noteq> (if 0 < (sint wB AND uint (snd bm)) then 1 else 0)
       then cs(fst bm := (if sint wB AND uint (snd bm) \<noteq> 0 then SDL_PRESSED else SDL_RELEASED))
       else cs) tbl bs"

definition stored_after :: "XINPUT_GAMEPAD \<Rightarrow> SDL_Joystick \<Rightarrow> SDL_Joystick" where
  "stored_after xpad j =
     j\<lparr> hats := (hats j)
           (0 := if uint (hat_of (wButtons xpad)) \<noteq> uint (hats j 0)
                 then hat_of (wButtons xpad) else hats j 0),
        buttons := button_cells (wButtons xpad) btn_map (buttons j),
        axes := (axes j)
           (2 := if uint (bLeftTrigger xpad) \<noteq> sint (axes j 2)
                 then trigger_axis (bLeftTrigger xpad) else axes j 2,
            5 := if uint (bRightTrigger xpad) \<noteq> sint (axes j 5)
                 then trigger_axis (bRightTrigger xpad) else axes j 5,
            0 := if sint (sThumbLX xpad) \<noteq> sint (axes j 0)
                 then sThumbLX xpad else axes j 0,
            1 := if sint (sThumbLY xpad) \<noteq> sint (axes j 1)
                 then NOT (sThumbLY xpad) else axes j 1,
            3 := if sint (sThumbRX xpad) \<noteq> sint (axes j 3)
                 then sThumbRX xpad else axes j 3,
            4 := if sint (sThumbRY xpad) \<noteq> sint (axes j 4)
                 then NOT (sThumbRY xpad) else axes j 4) \<rparr>"

text \<open>
  The stored cells hold exactly what the decoded state reports: the hat, the ten
  button states, the two trigger axes and the four stick axes as the sinks
  receive them.
\<close>

definition stored_equals :: "SDL_Joystick \<Rightarrow> XINPUT_GAMEPAD \<Rightarrow> bool" where
  "stored_equals j xpad =
     (hats j 0 = hat_of (wButtons xpad) \<and>
      list_all (\<lambda>bm. buttons j (fst bm) =
                  (if sint (wButtons xpad) AND uint (snd bm) \<noteq> 0
                   then SDL_PRESSED else SDL_RELEASED)) btn_map \<and>
      axes j 2 = trigger_axis (bLeftTrigger xpad) \<and>
      axes j 5 = trigger_axis (bRightTrigger xpad) \<and>
      axes j 0 = sThumbLX xpad \<and>
      axes j 1 = NOT (sThumbLY xpad) \<and>
      axes j 3 = sThumbRX xpad \<and>
      axes j 4 = NOT (sThumbRY xpad))"

section \<open>Concrete devices, joysticks and reports\<close>

text \<open>
  One device of a given family, one joystick object at address 0, and the world
  in which the joystick has been opened on the device.
\<close>

definition pad :: "hid_type \<Rightarrow> HID_DEV_T" where
  "pad t = \<lparr> uid = 1, dev_type = t, idVendor = 0x045E, idProduct = 0x02D1,
             user_data = None, read_func = False \<rparr>"

definition blank_joystick :: SDL_Joystick where
  "blank_joystick =
     \<lparr> hwdata = HwNull, player_index = 0,
       guid = [0, 0, 0, 0, 0, 0, 0, 0, 0, 0, 0, 0, 0, 0, 0, 0],
       naxes = 0, nballs = 0, nhats = 0, nbuttons = 0,
       hats = (\<lambda>i. 0), buttons = (\<lambda>i. 0), axes = (\<lambda>i. 0) \<rparr>"

definition one_pad :: "hid_type \<Rightarrow> world" where
  "one_pad t = \<lparr> devs = [pad t], joys = [0 \<mapsto> blank_joystick], wire = [] \<rparr>"

definition pad_hwdata :: "Uint8 list \<Rightarrow> Uint16 \<times> Uint16 \<Rightarrow> Uint32 \<Rightarrow> joystick_hwdata" where
  "pad_hwdata raw rum ex =
     \<lparr> hdev = Some 0, raw_data = raw, current_rumble = rum, rumble_expiry = ex \<rparr>"

definition pad_joystick :: "(nat \<Rightarrow> Sint16) \<Rightarrow> joystick_hwdata \<Rightarrow> SDL_Joystick" where
  "pad_joystick ax h =
     \<lparr> hwdata = HwLive h, player_index = 0,
       guid = [0x03, 0, 0, 0, 0x5E, 0x04, 0, 0, 0xD1, 0x02, 0, 0, 0, 0, 0, 0],
       naxes = 6, nballs = 0, nhats = 1, nbuttons = 10,
       hats = (\<lambda>i. 0), buttons = (\<lambda>i. 0), axes = ax \<rparr>"

definition opened_dev :: "hid_type \<Rightarrow> HID_DEV_T" where
  "opened_dev t = (pad t)\<lparr>user_data := Some 0, read_func := True\<rparr>"

definition opened_pad ::
  "hid_type \<Rightarrow> (nat \<Rightarrow> Sint16) \<Rightarrow> joystick_hwdata \<Rightarrow> (nat \<times> Uint8 list) list \<Rightarrow> world" where
  "opened_pad t ax h wr =
     \<lparr> devs = [opened_dev t], joys = [0 \<mapsto> pad_joystick ax h], wire = wr \<rparr>"

text \<open>The bytes at a pointer into a buffer that holds \<open>xs\<close> and zeros after it.\<close>

definition bytes_at :: "Uint8 list \<Rightarrow> nat \<Rightarrow> Uint8" where
  "bytes_at xs i = (if i < length xs then xs ! i else 0)"

definition zero_report :: "Uint8 list" where
  "zero_report = [0, 0, 0, 0, 0, 0, 0, 0, 0, 0, 0, 0, 0, 0, 0, 0,
                  0, 0, 0, 0, 0, 0, 0, 0, 0, 0, 0, 0, 0, 0, 0, 0]"

text \<open>
  An Xbox One input report (first byte 0x20) with the left trigger (byte 6) fully
  pressed and everything else at rest, and the state it decodes to.
\<close>

definition one_report :: "Uint8 list" where
  "one_report = [0x20, 0, 0x01, 0x0E, 0, 0, 0xFF, 0x03, 0, 0, 0, 0, 0, 0, 0, 0,
                 0, 0, 0, 0, 0, 0, 0, 0, 0, 0, 0, 0, 0, 0, 0, 0]"

definition one_xpad :: XINPUT_GAMEPAD where
  "one_xpad = \<lparr> wButtons = 0, bLeftTrigger = 0xFF, bRightTrigger = 0,
       sThumbLX = 0, sThumbLY = 0, sThumbRX = 0, sThumbRY = 0 \<rparr>"

text \<open>
  An original Xbox report with every bit of the button mask at bytes 2 and 3 set,
  byte 8 at the deadzone threshold and byte 9 one above it.
\<close>

definition og_report :: "Uint8 list" where
  "og_report = [0x00, 0x14, 0xFF, 0xFF, 0, 0, 0, 0, 0x20, 0x21, 0, 0, 0, 0, 0, 0,
                0, 0, 0, 0, 0, 0, 0, 0, 0, 0, 0, 0, 0, 0, 0, 0]"

text \<open>
  A report of more than \<open>MAX_PACKET_SIZE\<close> bytes as the transport hands it
  over: byte 0 is 0x20 and byte \<open>i\<close> is \<open>i\<close> after it.
\<close>

definition long_report :: "nat \<Rightarrow> Uint8" where
  "long_report i = (if i = 0 then 0x20 else word_of_nat i)"

text \<open>
  A decoded state in which the hat, three buttons and all six axes differ from a
  joystick at rest.
\<close>

definition busy_xpad :: XINPUT_GAMEPAD where
  "busy_xpad = \<lparr> wButtons = 0x9013, bLeftTrigger = 0x01, bRightTrigger = 0xFF,
       sThumbLX = 0x7FFF, sThumbLY = 0x8000, sThumbRX = 0x0001, sThumbRY = 0xFFFF \<rparr>"

text \<open>
  A frame on the Xbox One endpoint that is not an input report (its first byte is
  not 0x20); the Xbox One packets that start the motors at magnitudes 0x8000 and
  0x4000 (50 and 25 on the scale of 100) and that stop both motors.
\<close>

definition keep_alive :: "Uint8 list" where
  "keep_alive = [0x03, 0x20, 0x01, 0x04, 0x80, 0, 0, 0]"

definition start_packet :: "Uint8 list" where
  "start_packet = [0x09, 0x00, 0x00, 0x09, 0x00, 0x0f, 0x00, 0x00, 50, 25, 0xFF, 0x00, 0xEB]"

definition stop_packet :: "Uint8 list" where
  "stop_packet = [0x09, 0x00, 0x00, 0x09, 0x00, 0x0f, 0x00, 0x00, 0, 0, 0xFF, 0x00, 0xEB]"

section \<open>Lemmas\<close>

lemmas xinput_defs =
  XINPUT_GAMEPAD_DPAD_UP_def XINPUT_GAMEPAD_DPAD_DOWN_def XINPUT_GAMEPAD_DPAD_LEFT_def
  XINPUT_GAMEPAD_DPAD_RIGHT_def XINPUT_GAMEPAD_START_def XINPUT_GAMEPAD_BACK_def
  XINPUT_GAMEPAD_LEFT_THUMB_def XINPUT_GAMEPAD_RIGHT_THUMB_def
  XINPUT_GAMEPAD_LEFT_SHOULDER_def XINPUT_GAMEPAD_RIGHT_SHOULDER_def
  XINPUT_GAMEPAD_A_def XINPUT_GAMEPAD_B_def XINPUT_GAMEPAD_X_def XINPUT_GAMEPAD_Y_def

lemmas example_defs = pad_def blank_joystick_def one_pad_def bytes_at_def one_report_def
  zero_report_def opened_pad_def opened_dev_def pad_joystick_def pad_hwdata_def

lemmas diff_defs = tick_events_def stored_after_def button_events_def button_cells_def
  btn_map_def hat_of_def trigger_axis_def xinput_defs SDL_HAT_CENTERED_def SDL_HAT_UP_def
  SDL_HAT_DOWN_def SDL_HAT_LEFT_def SDL_HAT_RIGHT_def SDL_PRESSED_def SDL_RELEASED_def

subsection \<open>The block of the update, in closed form\<close>

lemma button_events_Cons:
  "button_events wB bs (bm # tbl) = button_events wB bs [bm] @ button_events wB bs tbl"
  by (simp add: button_events_def)

lemma button_events_cong:
  "(\<And>b. b \<in> fst ` set tbl \<Longrightarrow> bs b = bs' b) \<Longrightarrow>
   button_events wB bs tbl = button_events wB bs' tbl"
  unfolding button_events_def by (induction tbl) auto

lemma button_step_eq:
  "button_step wB bm s =
     ((fst s)\<lparr>buttons := button_cells wB [bm] (buttons (fst s))\<rparr>,
      snd s @ button_events wB (buttons (fst s)) [bm])"
  by (simp add: button_step_def SDL_PrivateJoystickButton_def button_cells_def
      button_events_def)

lemma button_cells_other:
  "b \<noteq> fst bm \<Longrightarrow> button_cells wB [bm] bs b = bs b"
  by (simp add: button_cells_def)

lemma button_cells_Cons:
  "button_cells wB (bm # tbl) bs = button_cells wB tbl (button_cells wB [bm] bs)"
  by (simp add: button_cells_def)

lemma fold_button_step:
  "distinct (map fst tbl) \<Longrightarrow>
   fold (button_step wB) tbl s =
     ((fst s)\<lparr>buttons := button_cells wB tbl (buttons (fst s))\<rparr>,
      snd s @ button_events wB (buttons (fst s)) tbl)"
proof (induction tbl arbitrary: s)
  case Nil
  then show ?case by (simp add: button_events_def button_cells_def)
next
  case (Cons bm tbl)
  let ?s = "button_step wB bm s"
  have f: "fst ?s = (fst s)\<lparr>buttons := button_cells wB [bm] (buttons (fst s))\<rparr>"
    and e: "snd ?s = snd s @ button_events wB (buttons (fst s)) [bm]"
    by (simp_all add: button_step_eq)
  have same: "button_events wB (button_cells wB [bm] (buttons (fst s))) tbl =
              button_events wB (buttons (fst s)) tbl"
  proof (rule button_events_cong)
    fix b assume "b \<in> fst ` set tbl"
    moreover from Cons.prems have "fst bm \<notin> fst ` set tbl" by simp
    ultimately have "b \<noteq> fst bm" by blast
    then show "button_cells wB [bm] (buttons (fst s)) b = buttons (fst s) b"
      by (rule button_cells_other)
  qed
  from Cons.prems have "distinct (map fst tbl)" by simp
  then have "fold (button_step wB) tbl ?s =
      ((fst ?s)\<lparr>buttons := button_cells wB tbl (buttons (fst ?s))\<rparr>,
       snd ?s @ button_events wB (buttons (fst ?s)) tbl)"
    by (rule Cons.IH)
  also have "\<dots> = ((fst s)\<lparr>buttons := button_cells wB (bm # tbl) (buttons (fst s))\<rparr>,
       snd s @ button_events wB (buttons (fst s)) (bm # tbl))"
    by (simp add: f e same button_cells_Cons [of wB bm tbl]
        button_events_Cons [of wB _ bm tbl])
  finally show ?case by simp
qed

lemma hat_check_eq:
  "hat_check v s =
     ((fst s)\<lparr>hats := (hats (fst s))
         (0 := if uint v \<noteq> uint (hats (fst s) 0) then v else hats (fst s) 0)\<rparr>,
      snd s @ (if uint v \<noteq> uint (hats (fst s) 0) then [HatEvent 0 v] else []))"
  by (simp add: hat_check_def SDL_PrivateJoystickHat_def)

lemma trigger_check_eq:
  "trigger_check a t s =
     ((fst s)\<lparr>axes := (axes (fst s))
         (a := if uint t \<noteq> sint (axes (fst s) a) then trigger_axis t else axes (fst s) a)\<rparr>,
      snd s @ (if uint t \<noteq> sint (axes (fst s) a) then [AxisEvent a (trigger_axis t)] else []))"
  by (simp add: trigger_check_def SDL_PrivateJoystickAxis_def)

lemma stick_x_check_eq:
  "stick_x_check a v s =
     ((fst s)\<lparr>axes := (axes (fst s))
         (a := if sint v \<noteq> sint (axes (fst s) a) then v else axes (fst s) a)\<rparr>,
      snd s @ (if sint v \<noteq> sint (axes (fst s) a) then [AxisEvent a v] else []))"
  by (simp add: stick_x_check_def SDL_PrivateJoystickAxis_def)

lemma stick_y_check_eq:
  "stick_y_check a v s =
     ((fst s)\<lparr>axes := (axes (fst s))
         (a := if sint v \<noteq> sint (axes (fst s) a) then NOT v else axes (fst s) a)\<rparr>,
      snd s @ (if sint v \<noteq> sint (axes (fst s) a) then [AxisEvent a (NOT v)] else []))"
  by (simp add: stick_y_check_def SDL_PrivateJoystickAxis_def)

lemma distinct_btn_map: "distinct (map fst btn_map)"
  by (simp add: btn_map_def)

lemma report_changes_eq:
  "report_changes xpad (j, evs) = (stored_after xpad j, evs @ tick_events xpad j)"
  unfolding report_changes_def Let_def
  by (simp add: tick_events_def stored_after_def hat_check_eq
      trigger_check_eq stick_x_check_eq stick_y_check_eq fold_button_step distinct_btn_map
      split del: if_split cong: if_cong)

subsection \<open>Words and bits\<close>

lemma trigger_axis_sint:
  "sint (trigger_axis t) = (push_bit 8 (uint t) OR uint t) - 32768"
proof -
  let ?x = "push_bit 8 (uint t) OR uint t"
  have u: "uint t < 2 ^ 8" using uint_lt2p [of t] by simp
  have nonneg: "0 \<le> ?x" by simp
  have "push_bit 8 (uint t) < 2 ^ 16"
    using u by (simp add: push_bit_eq_mult)
  moreover have "uint t < 2 ^ 16" using u by simp
  ultimately have upper: "?x < 2 ^ 16"
    by (intro OR_upper) simp_all
  have "sint (trigger_axis t) = signed_take_bit (LENGTH(16) - 1) (?x - push_bit 15 1)"
    unfolding trigger_axis_def by (rule sint_sbintrunc')
  also have "\<dots> = signed_take_bit 15 (?x - 32768)"
    by simp
  also have "\<dots> = ?x - 32768"
    using nonneg upper by (intro signed_take_bit_int_eq_self) simp_all
  finally show ?thesis .
qed

lemma mask_test_iff_bit: "w AND push_bit k 1 \<noteq> 0 \<longleftrightarrow> bit w k" for w :: "16 word"
  by (simp add: bit_iff_and_push_bit_not_eq_0)

lemma bit_cond_or: "bit (if c then x OR m else x) n \<longleftrightarrow> bit x n \<or> (c \<and> bit m n)" for x :: "16 word"
  by (simp add: bit_or_iff)


lemma og_left_shoulder:
  "bit (analog_button rdata 9 XINPUT_GAMEPAD_LEFT_SHOULDER
                        (analog_button rdata 8 XINPUT_GAMEPAD_RIGHT_SHOULDER
                        (analog_button rdata 7 XINPUT_GAMEPAD_Y
                        (analog_button rdata 6 XINPUT_GAMEPAD_X
                        (analog_button rdata 5 XINPUT_GAMEPAD_B
                        (analog_button rdata 4 XINPUT_GAMEPAD_A
                        (map_bits
                           [(0, XINPUT_GAMEPAD_DPAD_UP),
                            (1, XINPUT_GAMEPAD_DPAD_DOWN),
                            (2, XINPUT_GAMEPAD_DPAD_LEFT),
                            (3, XINPUT_GAMEPAD_DPAD_RIGHT),
                            (4, XINPUT_GAMEPAD_START),
                            (5, XINPUT_GAMEPAD_BACK),
                            (6, XINPUT_GAMEPAD_LEFT_THUMB),
                            (7, XINPUT_GAMEPAD_RIGHT_THUMB)]
                           w 0))))))) 8 \<longleftrightarrow> rdata ! 9 > BUTTON_DEADZONE"
  by (simp add: analog_button_def map_bits_def bit_cond_or xinput_defs split del: if_split)

lemma og_right_shoulder:
  "bit (analog_button rdata 9 XINPUT_GAMEPAD_LEFT_SHOULDER
                        (analog_button rdata 8 XINPUT_GAMEPAD_RIGHT_SHOULDER
                        (analog_button rdata 7 XINPUT_GAMEPAD_Y
                        (analog_button rdata 6 XINPUT_GAMEPAD_X
                        (analog_button rdata 5 XINPUT_GAMEPAD_B
                        (analog_button rdata 4 XINPUT_GAMEPAD_A
                        (map_bits
                           [(0, XINPUT_GAMEPAD_DPAD_UP),
                            (1, XINPUT_GAMEPAD_DPAD_DOWN),
                            (2, XINPUT_GAMEPAD_DPAD_LEFT),
                            (3, XINPUT_GAMEPAD_DPAD_RIGHT),
                            (4, XINPUT_GAMEPAD_START),
                            (5, XINPUT_GAMEPAD_BACK),
                            (6, XINPUT_GAMEPAD_LEFT_THUMB),
                            (7, XINPUT_GAMEPAD_RIGHT_THUMB)]
                           w 0))))))) 9 \<longleftrightarrow> rdata ! 8 > BUTTON_DEADZONE"
  by (simp add: analog_button_def map_bits_def bit_cond_or xinput_defs split del: if_split)

lemma shoulder_masks:
  "w AND XINPUT_GAMEPAD_LEFT_SHOULDER \<noteq> 0 \<longleftrightarrow> bit w 8"
  "w AND XINPUT_GAMEPAD_RIGHT_SHOULDER \<noteq> 0 \<longleftrightarrow> bit w 9"
  using mask_test_iff_bit [of w 8] mask_test_iff_bit [of w 9]
  by (simp_all add: xinput_defs)

subsection \<open>The update tick on a live joystick\<close>

lemma replicate_16: "replicate 16 x = [x, x, x, x, x, x, x, x, x, x, x, x, x, x, x, x]"
  by (simp add: eval_nat_numeral)

lemma replicate_32: "replicate 32 x = [x, x, x, x, x, x, x, x, x, x, x, x, x, x, x, x, x, x, x, x, x, x, x, x, x, x, x, x, x, x, x, x]"
  by (simp add: eval_nat_numeral)

lemma upt_32: "[0..<32] = [0, 1, 2, 3, 4, 5, 6, 7, 8, 9, 10, 11, 12, 13, 14, 15, 16, 17, 18, 19, 20, 21, 22, 23, 24, 25, 26, 27, 28, 29, 30, 31]"
  by code_simp

lemma rumble_timer_frame:
  "rumble_timer now tx w p h = Inr (w1, h1) \<Longrightarrow>
   devs w1 = devs w \<and> joys w1 = joys w \<and> raw_data h1 = raw_data h \<and>
   current_rumble h1 = current_rumble h \<and> hdev h1 = hdev h"
  by (auto simp: rumble_timer_def xboxjoy_rumble_def split: if_splits option.splits)

lemma tick_events_hwdata: "tick_events xpad (j\<lparr>hwdata := x\<rparr>) = tick_events xpad j"
  by (simp add: tick_events_def)

lemma update_live:
  assumes "joys w a = Some j" "hwdata j = HwLive h" "hdev h = Some p" "p < length (devs w)"
    and "rumble_timer now tx w p h = Inr (w1, h1)"
    and "xboxjoy_parse_input_data (Some (devs w ! p)) (raw_data h) = Some xpad"
  shows "SDL_XBOX_JoystickUpdate now tx w (Some a) =
         Inr (w1\<lparr>joys := (joys w1)(a \<mapsto> stored_after xpad (j\<lparr>hwdata := HwLive h1\<rparr>))\<rparr>,
              tick_events xpad j)"
  using assms rumble_timer_frame [OF assms(5)]
  by (simp add: SDL_XBOX_JoystickUpdate_def report_changes_eq tick_events_hwdata)

lemma update_opened_pad:
  assumes "hdev h = Some 0"
    and "rumble_timer now tx (opened_pad t ax h wr) 0 h = Inr (w1, h1)"
    and "xboxjoy_parse_input_data (Some (opened_dev t)) (raw_data h) = Some xpad"
  shows "SDL_XBOX_JoystickUpdate now tx (opened_pad t ax h wr) (Some 0) =
         Inr (w1\<lparr>joys := (joys w1)(0 \<mapsto> stored_after xpad (pad_joystick ax h1))\<rparr>,
              tick_events xpad (pad_joystick ax h))"
proof -
  have "SDL_XBOX_JoystickUpdate now tx (opened_pad t ax h wr) (Some 0) =
         Inr (w1\<lparr>joys := (joys w1)(0 \<mapsto>
                stored_after xpad ((pad_joystick ax h)\<lparr>hwdata := HwLive h1\<rparr>))\<rparr>,
              tick_events xpad (pad_joystick ax h))"
    using assms by (intro update_live [where h = h and p = 0]) (simp_all add: opened_pad_def pad_joystick_def)
  then show ?thesis by (simp add: pad_joystick_def)
qed

lemma open_reaches:
  "SDL_XBOX_JoystickOpen nd True (one_pad XBOXONE) 0 0 =
     Inr (0, opened_pad XBOXONE (\<lambda>i. 0) (pad_hwdata zero_report (0, 0) 0) [])"
  by (simp add: SDL_XBOX_JoystickOpen_def hdev_from_device_index_def is_gamepad_def
      SDL_XBOX_JoystickGetDevicePlayerIndex_def SDL_XBOX_JoystickGetDeviceGUID_def
      fresh_hwdata_def MAX_PACKET_SIZE_def example_defs replicate_16 replicate_32)

lemma report_reaches:
  "xboxjoy_int_read_callback (opened_pad XBOXONE (\<lambda>i. 0) (pad_hwdata zero_report (0, 0) 0) [])
      (Some 0) 0x81 0 (bytes_at one_report) 32 =
     Inr (opened_pad XBOXONE (\<lambda>i. 0) (pad_hwdata one_report (0, 0) 0) [])"
  by (simp add: xboxjoy_int_read_callback_def is_button_report_def SDL_memcpy_def
      MAX_PACKET_SIZE_def example_defs upt_32)

lemma parse_one:
  "xboxjoy_parse_input_data (Some (opened_dev XBOXONE)) one_report = Some one_xpad"
  by (simp add: xboxjoy_parse_input_data_def rd16_def map_bits_def xinput_defs one_xpad_def example_defs)

lemma timer_idle: "rumble_timer now tx w p (pad_hwdata raw rum 0) = Inr (w, pad_hwdata raw rum 0)"
  by (simp add: rumble_timer_def pad_hwdata_def)

lemma tick_reaches:
  "SDL_XBOX_JoystickUpdate now tx
      (opened_pad XBOXONE (\<lambda>i. 0) (pad_hwdata one_report (0, 0) 0) []) (Some 0) =
     Inr (opened_pad XBOXONE ((\<lambda>i. 0)(2 := 0x7FFF)) (pad_hwdata one_report (0, 0) 0) [],
          [AxisEvent 2 0x7FFF])"
proof -
  have p: "xboxjoy_parse_input_data (Some (opened_dev XBOXONE))
             (raw_data (pad_hwdata one_report (0, 0) 0)) = Some one_xpad"
    by (simp add: pad_hwdata_def parse_one)
  have h: "hdev (pad_hwdata one_report (0, 0) 0) = Some 0"
    by (simp add: pad_hwdata_def)
  show ?thesis
    by (subst update_opened_pad [OF h timer_idle p])
       (simp add: opened_pad_def pad_joystick_def diff_defs one_xpad_def fun_eq_iff)
qed

lemma tick_again:
  "SDL_XBOX_JoystickUpdate now tx
      (opened_pad XBOXONE ((\<lambda>i. 0)(2 := 0x7FFF)) (pad_hwdata one_report (0, 0) 0) []) (Some 0) =
     Inr (opened_pad XBOXONE ((\<lambda>i. 0)(2 := 0x7FFF)) (pad_hwdata one_report (0, 0) 0) [],
          [AxisEvent 2 0x7FFF])"
proof -
  have p: "xboxjoy_parse_input_data (Some (opened_dev XBOXONE))
             (raw_data (pad_hwdata one_report (0, 0) 0)) = Some one_xpad"
    by (simp add: pad_hwdata_def parse_one)
  have h: "hdev (pad_hwdata one_report (0, 0) 0) = Some 0"
    by (simp add: pad_hwdata_def)
  show ?thesis
    by (subst update_opened_pad [OF h timer_idle p])
       (simp add: opened_pad_def pad_joystick_def diff_defs one_xpad_def fun_eq_iff)
qed

subsection \<open>Examples evaluated\<close>

lemma parse_zero:
  "xboxjoy_parse_input_data (Some (opened_dev XBOXONE)) zero_report =
     Some \<lparr> wButtons = 0, bLeftTrigger = 0, bRightTrigger = 0,
            sThumbLX = 0, sThumbLY = 0, sThumbRX = 0, sThumbRY = 0 \<rparr>"
  by (simp add: xboxjoy_parse_input_data_def rd16_def map_bits_def xinput_defs example_defs)

lemma busy_events:
  "snd (report_changes busy_xpad (pad_joystick (\<lambda>i. 0) h, [])) =
     [HatEvent 0 0x05, ButtonEvent 0 1, ButtonEvent 3 1, ButtonEvent 7 1,
      AxisEvent 2 0x8101, AxisEvent 5 0x7FFF,
      AxisEvent 0 0x7FFF, AxisEvent 1 0x7FFF, AxisEvent 3 0x0001, AxisEvent 4 0]"
  by (simp add: report_changes_eq pad_joystick_def diff_defs busy_xpad_def)

subsection \<open>The validator\<close>

lemma fresh_hwdata_length: "length (raw_data (fresh_hwdata p)) = MAX_PACKET_SIZE"
  by (simp add: fresh_hwdata_def)

lemma is_button_report_iff:
  "is_button_report XBOXOG_CONTROLLER rdata \<longleftrightarrow> 0x14 \<le> rdata 1"
  "is_button_report XBOX360_WIRED rdata \<longleftrightarrow> 0x14 \<le> rdata 1"
  "is_button_report XBOX360_WIRELESS rdata \<longleftrightarrow> bit (rdata 1) 0 \<and> rdata 5 = 0x13"
  "is_button_report XBOXONE rdata \<longleftrightarrow> rdata 0 = 0x20"
  "is_button_report (OTHER_HID n) rdata \<longleftrightarrow> False"
  by (simp_all add: is_button_report_def not_less bit_iff_and_push_bit_not_eq_0 [of _ 0, simplified])

lemma read_callback_rejects:
  "\<not> is_button_report (dev_type (devs w ! p)) rdata \<Longrightarrow> p < length (devs w) \<Longrightarrow>
   xboxjoy_int_read_callback w (Some p) ep_addr status rdata data_len = Inr w"
  by (simp add: xboxjoy_int_read_callback_def split: option.splits)

lemma read_callback_accepts_only_reports:
  assumes "xboxjoy_int_read_callback w hdp ep_addr status rdata data_len = Inr w'"
    and "w' \<noteq> w"
  shows "\<exists>p. hdp = Some p \<and> p < length (devs w) \<and> 0 \<le> sint status \<and>
             is_button_report (dev_type (devs w ! p)) rdata"
  using assms
  by (cases hdp)
     (auto simp: xboxjoy_int_read_callback_def split: if_splits option.splits)

subsection \<open>The rumble encoder\<close>

lemma low_byte_mask: "ucast (x AND 0xFF) = (ucast x :: Uint8)" for x :: Uint16
proof -
  have m: "(0xFF :: Uint16) = mask 8" by (simp add: mask_eq_exp_minus_1)
  show ?thesis unfolding m by (rule bit_word_eqI) (auto simp: bit_simps)
qed

lemma percent_bound: "unat x div 655 \<le> 100" for x :: Uint16
  using unsigned_less [of x, where 'a = nat] by simp

lemma percent_byte: "unat (ucast (x div 655) :: Uint8) = unat x div 655" for x :: Uint16
proof -
  have "unat (x div 655) = unat x div 655"
    by (simp add: unat_div)
  moreover have "unat x div 655 < 256"
    using percent_bound [of x] by simp
  ultimately show ?thesis
    by (simp add: unsigned_ucast_eq take_bit_nat_eq_self)
qed

lemma rumble_timer_expired:
  assumes "rumble_expiry h \<noteq> 0" and "rumble_expiry h < now" and "p < length (devs w)"
    and "rumble_packet (dev_type (devs w ! p)) 0 0 = Some pkt"
  shows "rumble_timer now tx_ok w p h =
           Inr (w\<lparr>wire := wire w @ [(p, pkt)]\<rparr>, h\<lparr>rumble_expiry := 0\<rparr>)"
  using assms by (simp add: rumble_timer_def xboxjoy_rumble_def)

subsection \<open>Index resolution\<close>

lemma count_pads_mono: "pad_cnt \<le> count_pads ds pad_cnt"
proof (induction ds arbitrary: pad_cnt)
  case Nil
  then show ?case by simp
next
  case (Cons d ds)
  have "pad_cnt \<le> (if is_gamepad d then pad_cnt + 1 else pad_cnt)" by simp
  also have "\<dots> \<le> count_pads ds (if is_gamepad d then pad_cnt + 1 else pad_cnt)"
    by (rule Cons.IH)
  finally show ?case by simp
qed

lemma scan_devices_out_of_range:
  "i \<le> device_index \<Longrightarrow> count_pads ds i \<le> device_index \<Longrightarrow>
   scan_devices ds p i device_index = LoopExit None"
proof (induction ds arbitrary: p i)
  case Nil
  then show ?case by simp
next
  case (Cons d ds)
  show ?case
  proof (cases "is_gamepad d")
    case True
    with Cons.prems have c: "count_pads ds (i + 1) \<le> device_index" by simp
    with count_pads_mono [of "i + 1" ds] have "i + 1 \<le> device_index" by simp
    with True c Cons.IH [of "i + 1" "Suc p"] show ?thesis by simp
  next
    case False
    with Cons.prems Cons.IH [of i "Suc p"] show ?thesis by simp
  qed
qed

subsection \<open>Order of the notifications\<close>

lemma button_keys_subseq:
  "subseq (map key_of (button_events wB bs tbl)) (map (\<lambda>bm. ButtonKey (fst bm)) tbl)"
proof (induction tbl)
  case Nil
  then show ?case by (simp add: button_events_def)
next
  case (Cons bm tbl)
  have "subseq (map key_of (button_events wB bs [bm])) [ButtonKey (fst bm)]"
    by (simp add: button_events_def)
  from list_emb_append_mono [OF this Cons.IH] show ?case
    by (simp add: button_events_Cons [of wB bs bm tbl])
qed

lemma tick_events_order: "subseq (map key_of (tick_events xpad j)) event_order"
proof -
  have e: "map key_of (if c then [x] else []) = (if c then [key_of x] else [])" for c x
    by simp
  show ?thesis
    unfolding tick_events_def event_order_def map_append e key_of.simps
    by (intro list_emb_append_mono button_keys_subseq) simp_all
qed



lemma tick_events_cells:
  assumes "hats j' 0 = hats j 0"
    and "\<forall>bm \<in> set btn_map. buttons j' (fst bm) = buttons j (fst bm)"
    and "\<forall>a \<in> {0, 1, 2, 3, 4, 5}. axes j' a = axes j a"
  shows "tick_events xpad j' = tick_events xpad j"
proof -
  have "button_events (wButtons xpad) (buttons j') btn_map =
        button_events (wButtons xpad) (buttons j) btn_map"
    using assms(2) by (intro button_events_cong) auto
  with assms(1,3) show ?thesis
    by (simp add: tick_events_def)
qed

lemma update_events_cases:
  assumes "SDL_XBOX_JoystickUpdate now tx_ok w joystick = Inr (w', evs)"
  shows "evs = [] \<or> (\<exists>xpad j. evs = tick_events xpad j)"
proof (cases joystick)
  case None
  with assms show ?thesis by (simp add: SDL_XBOX_JoystickUpdate_def)
next
  case (Some a)
  show ?thesis
  proof (cases "joys w a")
    case None
    with assms Some show ?thesis by (simp add: SDL_XBOX_JoystickUpdate_def)
  next
    case j: (Some j)
    show ?thesis
    proof (cases "hwdata j")
      case HwNull
      with assms Some j show ?thesis by (simp add: SDL_XBOX_JoystickUpdate_def)
    next
      case HwFreed
      with assms Some j show ?thesis by (simp add: SDL_XBOX_JoystickUpdate_def)
    next
      case (HwLive h)
      show ?thesis
      proof (cases "hdev h")
        case None
        with assms Some j HwLive show ?thesis by (simp add: SDL_XBOX_JoystickUpdate_def)
      next
        case p: (Some p)
        show ?thesis
        proof (cases "rumble_timer now tx_ok w p h")
          case (Inl f)
          with assms Some j HwLive p show ?thesis by (simp add: SDL_XBOX_JoystickUpdate_def)
        next
          case (Inr r)
          obtain w1 h1 where r: "r = (w1, h1)" by (cases r)
          show ?thesis
          proof (cases "xboxjoy_parse_input_data (Some (devs w1 ! p)) (raw_data h1)")
            case None
            with assms Some j HwLive p Inr r show ?thesis
              by (simp add: SDL_XBOX_JoystickUpdate_def split: if_splits)
          next
            case xp: (Some xpad)
            with assms Some j HwLive p Inr r
            have "evs = tick_events xpad (j\<lparr>hwdata := HwLive h1\<rparr>)"
              by (simp add: SDL_XBOX_JoystickUpdate_def report_changes_eq Let_def split: if_splits)
            then show ?thesis by blast
          qed
        qed
      qed
    qed
  qed
qed

subsection \<open>A tick on a joystick whose stored cells equal the decoded state\<close>

lemma trigger_axis_value: "sint (trigger_axis t) = 257 * uint t - 32768"
proof -
  have "push_bit 8 (uint t) OR uint t = push_bit 8 (uint t) + uint t"
  proof (rule disjunctive_add [symmetric])
    fix n
    show "\<not> bit (push_bit 8 (uint t)) n \<or> \<not> bit (uint t) n"
      by (cases "n < 8") (auto simp: bit_simps bit_uint_iff dest: bit_imp_le_length)
  qed
  then show ?thesis
    by (simp add: trigger_axis_sint push_bit_eq_mult)
qed

lemma trigger_fixed_point: "uint t = sint (trigger_axis t) \<longleftrightarrow> t = 0x80"
proof -
  have "uint t = sint (trigger_axis t) \<longleftrightarrow> uint t = 128"
    by (auto simp: trigger_axis_value)
  also have "\<dots> \<longleftrightarrow> uint t = uint (0x80 :: Uint8)" by simp
  also have "\<dots> \<longleftrightarrow> t = 0x80" by (rule word_uint_eq_iff [symmetric])
  finally show ?thesis .
qed

lemma not_self: "sint v \<noteq> sint (NOT v)" for v :: Sint16
proof
  assume "sint v = sint (NOT v)"
  then have "v = NOT v" by (rule signed_word_eqI)
  then have "bit v 0 = bit (NOT v) 0" by simp
  then show False by (simp add: bit_simps)
qed

lemma pressed_test: "0 < (sint wB AND uint m) \<longleftrightarrow> sint wB AND uint m \<noteq> 0"
  for wB m :: Uint16
proof -
  have "0 \<le> sint wB AND uint m" by simp
  then show ?thesis by linarith
qed

lemma cell_matches:
  fixes wB m :: Uint16
  assumes "c = (if sint wB AND uint m \<noteq> 0 then SDL_PRESSED else SDL_RELEASED)"
  shows "uint c = (if 0 < (sint wB AND uint m) then 1 else 0)"
proof (cases "sint wB AND uint m = 0")
  case True
  with assms show ?thesis by (simp add: SDL_RELEASED_def)
next
  case False
  moreover from False have "0 < (sint wB AND uint m)" using pressed_test [of wB m] by blast
  ultimately show ?thesis using assms by (simp add: SDL_PRESSED_def)
qed

lemma button_events_unchanged:
  assumes "list_all (\<lambda>bm. bs (fst bm) =
              (if sint wB AND uint (snd bm) \<noteq> 0 then SDL_PRESSED else SDL_RELEASED)) tbl"
  shows "button_events wB bs tbl = []"
  using assms
proof (induction tbl)
  case Nil
  then show ?case by (simp add: button_events_def)
next
  case (Cons bm tbl)
  from Cons.prems have "uint (bs (fst bm)) = (if 0 < (sint wB AND uint (snd bm)) then 1 else 0)"
    by (intro cell_matches) simp
  then have "button_events wB bs [bm] = []"
    by (simp add: button_events_def)
  moreover from Cons have "button_events wB bs tbl = []" by simp
  ultimately show ?case by (simp add: button_events_Cons [of wB bs bm tbl])
qed

lemma button_cells_unchanged:
  assumes "list_all (\<lambda>bm. bs (fst bm) =
              (if sint wB AND uint (snd bm) \<noteq> 0 then SDL_PRESSED else SDL_RELEASED)) tbl"
  shows "button_cells wB tbl bs = bs"
  using assms
proof (induction tbl)
  case Nil
  then show ?case by (simp add: button_cells_def)
next
  case (Cons bm tbl)
  from Cons.prems have "uint (bs (fst bm)) = (if 0 < (sint wB AND uint (snd bm)) then 1 else 0)"
    by (intro cell_matches) simp
  then have "button_cells wB [bm] bs = bs"
    by (simp add: button_cells_def)
  moreover from Cons have "button_cells wB tbl bs = bs" by simp
  ultimately show ?case by (simp add: button_cells_Cons [of wB bm tbl])
qed

lemma unchanged_state_still_reported:
  assumes "stored_equals j xpad"
  shows "report_changes xpad (j, []) =
     (j, (if bLeftTrigger xpad = 0x80 then []
          else [AxisEvent 2 (trigger_axis (bLeftTrigger xpad))]) @
         (if bRightTrigger xpad = 0x80 then []
          else [AxisEvent 5 (trigger_axis (bRightTrigger xpad))]) @
         [AxisEvent 1 (NOT (sThumbLY xpad)), AxisEvent 4 (NOT (sThumbRY xpad))])"
proof -
  from assms have hat: "hats j 0 = hat_of (wButtons xpad)"
    and btn: "list_all (\<lambda>bm. buttons j (fst bm) =
                  (if sint (wButtons xpad) AND uint (snd bm) \<noteq> 0
                   then SDL_PRESSED else SDL_RELEASED)) btn_map"
    and ax: "axes j 2 = trigger_axis (bLeftTrigger xpad)"
      "axes j 5 = trigger_axis (bRightTrigger xpad)"
      "axes j 0 = sThumbLX xpad" "axes j 1 = NOT (sThumbLY xpad)"
      "axes j 3 = sThumbRX xpad" "axes j 4 = NOT (sThumbRY xpad)"
    by (simp_all add: stored_equals_def)
  have ev: "tick_events xpad j =
         (if bLeftTrigger xpad = 0x80 then []
          else [AxisEvent 2 (trigger_axis (bLeftTrigger xpad))]) @
         (if bRightTrigger xpad = 0x80 then []
          else [AxisEvent 5 (trigger_axis (bRightTrigger xpad))]) @
         [AxisEvent 1 (NOT (sThumbLY xpad)), AxisEvent 4 (NOT (sThumbRY xpad))]"
    using hat ax
    by (simp add: tick_events_def button_events_unchanged [OF btn]
        trigger_fixed_point not_self cong: if_cong)
  have "hats (stored_after xpad j) = hats j"
    using hat by (simp add: stored_after_def fun_eq_iff cong: if_cong)
  moreover have "buttons (stored_after xpad j) = buttons j"
    by (simp add: stored_after_def button_cells_unchanged [OF btn])
  moreover have "axes (stored_after xpad j) = axes j"
    using ax by (simp add: stored_after_def fun_eq_iff cong: if_cong)
  moreover have "stored_after xpad j = j\<lparr>hats := hats (stored_after xpad j),
      buttons := buttons (stored_after xpad j), axes := axes (stored_after xpad j)\<rparr>"
    by (simp add: stored_after_def)
  ultimately have "stored_after xpad j = j" by simp
  with ev show ?thesis by (simp add: report_changes_eq)
qed


section \<open>Properties\<close>

text \<open>
  C1. The claim: a tick whose decoded state equals the stored previous state hands
  nothing to the sinks. The code at a concrete input: an Xbox One pad is opened,
  the report \<open>one_report\<close> (left trigger fully pressed, everything else at rest)
  arrives and is accepted, and two ticks follow with no report in between. The
  first tick reports the trigger on axis 2 and stores 32767. The second tick
  decodes the same buffer, compares the raw byte 255 with the stored 32767 and
  reports axis 2 again, leaving the world as it was.
  \<open>unchanged_state_still_reported\<close> above gives the notifications for every
  joystick whose stored cells equal the decoded state.
\<close>

theorem unchanged_report_reemits_trigger:
  "SDL_XBOX_JoystickOpen True True (one_pad XBOXONE) 0 0 =
     Inr (0, opened_pad XBOXONE (\<lambda>i. 0) (pad_hwdata zero_report (0, 0) 0) []) \<and>
   xboxjoy_int_read_callback
      (opened_pad XBOXONE (\<lambda>i. 0) (pad_hwdata zero_report (0, 0) 0) [])
      (Some 0) 0x81 0 (bytes_at one_report) 32 =
     Inr (opened_pad XBOXONE (\<lambda>i. 0) (pad_hwdata one_report (0, 0) 0) []) \<and>
   SDL_XBOX_JoystickUpdate 16 True
      (opened_pad XBOXONE (\<lambda>i. 0) (pad_hwdata one_report (0, 0) 0) []) (Some 0) =
     Inr (opened_pad XBOXONE ((\<lambda>i. 0)(2 := 0x7FFF)) (pad_hwdata one_report (0, 0) 0) [],
          [AxisEvent 2 0x7FFF]) \<and>
   SDL_XBOX_JoystickUpdate 32 True
      (opened_pad XBOXONE ((\<lambda>i. 0)(2 := 0x7FFF)) (pad_hwdata one_report (0, 0) 0) [])
      (Some 0) =
     Inr (opened_pad XBOXONE ((\<lambda>i. 0)(2 := 0x7FFF)) (pad_hwdata one_report (0, 0) 0) [],
          [AxisEvent 2 0x7FFF])"
  by (simp add: open_reaches report_reaches tick_reaches tick_again)

text \<open>
  C2. For every trigger byte \<open>raw\<close>, the trigger axis value handed to the sink
  is \<open>(raw << 8 | raw) - 32768\<close> as a signed 16-bit number: byte 0x00 gives
  -32768 and byte 0xFF gives 32767. The update reports the left trigger on axis 2
  and the right trigger on axis 5, each with that value and with nothing else.
\<close>

theorem trigger_axis_remap:
  "sint (trigger_axis raw) = (push_bit 8 (uint raw) OR uint raw) - 32768 \<and>
   sint (trigger_axis 0x00) = - 32768 \<and>
   sint (trigger_axis 0xFF) = 32767 \<and>
   filter (\<lambda>e. key_of e = AxisKey 2) (snd (report_changes xpad (j, []))) =
     (if uint (bLeftTrigger xpad) \<noteq> sint (axes j 2)
      then [AxisEvent 2 (trigger_axis (bLeftTrigger xpad))] else []) \<and>
   filter (\<lambda>e. key_of e = AxisKey 5) (snd (report_changes xpad (j, []))) =
     (if uint (bRightTrigger xpad) \<noteq> sint (axes j 5)
      then [AxisEvent 5 (trigger_axis (bRightTrigger xpad))] else [])"
proof -
  have no_btn: "filter (\<lambda>e. key_of e = AxisKey a) (button_events wB bs tbl) = []" for a wB bs tbl
    by (induction tbl) (simp_all add: button_events_def)
  have "sint (trigger_axis raw) = (push_bit 8 (uint raw) OR uint raw) - 32768"
    by (rule trigger_axis_sint)
  moreover have "sint (trigger_axis 0x00) = - 32768" "sint (trigger_axis 0xFF) = 32767"
    by (simp_all add: trigger_axis_def)
  moreover have "filter (\<lambda>e. key_of e = AxisKey 2) (snd (report_changes xpad (j, []))) =
     (if uint (bLeftTrigger xpad) \<noteq> sint (axes j 2)
      then [AxisEvent 2 (trigger_axis (bLeftTrigger xpad))] else [])"
    by (simp add: report_changes_eq tick_events_def no_btn)
  moreover have "filter (\<lambda>e. key_of e = AxisKey 5) (snd (report_changes xpad (j, []))) =
     (if uint (bRightTrigger xpad) \<noteq> sint (axes j 5)
      then [AxisEvent 5 (trigger_axis (bRightTrigger xpad))] else [])"
    by (simp add: report_changes_eq tick_events_def no_btn)
  ultimately show ?thesis by blast
qed

theorem trigger_axis_remap_witness:
  "sint (trigger_axis 0x80) = 128"
  using trigger_axis_remap [of "0x80"] by simp

text \<open>
  C3. The claim: a rejected frame leaves the report buffer as it was, so the next
  tick reuses the previous state and hands nothing to the sinks. The code at a
  concrete input: on an Xbox One pad that has already reported \<open>one_report\<close>,
  a frame whose first byte is not 0x20 is rejected and the world is unchanged
  (\<open>read_callback_rejects\<close> and \<open>read_callback_accepts_only_reports\<close> above
  show this for every family and frame); the tick that follows still reports
  axis 2.
\<close>

theorem rejected_report_then_update_reemits:
  "xboxjoy_int_read_callback
      (opened_pad XBOXONE ((\<lambda>i. 0)(2 := 0x7FFF)) (pad_hwdata one_report (0, 0) 0) [])
      (Some 0) 0x81 0 (bytes_at keep_alive) 8 =
     Inr (opened_pad XBOXONE ((\<lambda>i. 0)(2 := 0x7FFF)) (pad_hwdata one_report (0, 0) 0) []) \<and>
   SDL_XBOX_JoystickUpdate 17 True
      (opened_pad XBOXONE ((\<lambda>i. 0)(2 := 0x7FFF)) (pad_hwdata one_report (0, 0) 0) [])
      (Some 0) =
     Inr (opened_pad XBOXONE ((\<lambda>i. 0)(2 := 0x7FFF)) (pad_hwdata one_report (0, 0) 0) [],
          [AxisEvent 2 0x7FFF])"
proof -
  let ?w = "opened_pad XBOXONE ((\<lambda>i. 0)(2 := 0x7FFF)) (pad_hwdata one_report (0, 0) 0) []"
  have "\<not> is_button_report (dev_type (devs ?w ! 0)) (bytes_at keep_alive)"
    by (simp add: opened_pad_def opened_dev_def pad_def is_button_report_def bytes_at_def
        keep_alive_def)
  then have "xboxjoy_int_read_callback ?w (Some 0) 0x81 0 (bytes_at keep_alive) 8 = Inr ?w"
    by (intro read_callback_rejects) (simp_all add: opened_pad_def)
  then show ?thesis
    by (simp add: tick_again)
qed

text \<open>
  C4. The claim: a tick after the rumble deadline sends one zero-magnitude command,
  unsets the deadline and clears the stored magnitude pair to (0, 0). The code at
  a concrete input, an opened Xbox One pad: a request at time 500 for magnitudes
  (0x8000, 0x4000) and 500 ms sends the start packet and stores the pair with
  deadline 1000; a tick at 999 changes nothing; the tick at 1001 sends the stop
  packet and unsets the deadline, and the stored pair stays (0x8000, 0x4000); a
  request for the same magnitudes at 1002 then finds them "not new", sends
  nothing and returns 0 while the motors are stopped.
\<close>

theorem expired_rumble_keeps_stored_pair:
  "SDL_XBOX_JoystickRumble 500 True
      (opened_pad XBOXONE (\<lambda>i. 0) (pad_hwdata zero_report (0, 0) 0) [])
      0 0x8000 0x4000 500 =
     Inr (0, opened_pad XBOXONE (\<lambda>i. 0) (pad_hwdata zero_report (0x8000, 0x4000) 1000)
               [(0, start_packet)]) \<and>
   SDL_XBOX_JoystickUpdate 999 True
      (opened_pad XBOXONE (\<lambda>i. 0) (pad_hwdata zero_report (0x8000, 0x4000) 1000)
         [(0, start_packet)])
      (Some 0) =
     Inr (opened_pad XBOXONE (\<lambda>i. 0) (pad_hwdata zero_report (0x8000, 0x4000) 1000)
            [(0, start_packet)], []) \<and>
   SDL_XBOX_JoystickUpdate 1001 True
      (opened_pad XBOXONE (\<lambda>i. 0) (pad_hwdata zero_report (0x8000, 0x4000) 1000)
         [(0, start_packet)])
      (Some 0) =
     Inr (opened_pad XBOXONE (\<lambda>i. 0) (pad_hwdata zero_report (0x8000, 0x4000) 0)
            [(0, start_packet), (0, stop_packet)], []) \<and>
   SDL_XBOX_JoystickRumble 1002 True
      (opened_pad XBOXONE (\<lambda>i. 0) (pad_hwdata zero_report (0x8000, 0x4000) 0)
         [(0, start_packet), (0, stop_packet)])
      0 0x8000 0x4000 500 =
     Inr (0, opened_pad XBOXONE (\<lambda>i. 0) (pad_hwdata zero_report (0x8000, 0x4000) 1502)
               [(0, start_packet), (0, stop_packet)])"
proof -
  let ?h = "pad_hwdata zero_report (0x8000, 0x4000) 1000"
  let ?h1 = "pad_hwdata zero_report (0x8000, 0x4000) 0"
  let ?w = "opened_pad XBOXONE (\<lambda>i. 0) ?h [(0, start_packet)]"
  let ?w1 = "opened_pad XBOXONE (\<lambda>i. 0) ?h [(0, start_packet), (0, stop_packet)]"
  have first: "SDL_XBOX_JoystickRumble 500 True
      (opened_pad XBOXONE (\<lambda>i. 0) (pad_hwdata zero_report (0, 0) 0) [])
      0 0x8000 0x4000 500 = Inr (0, ?w)"
    by (simp add: SDL_XBOX_JoystickRumble_def xboxjoy_rumble_def rumble_packet_def
        xbox_one_def start_packet_def example_defs)
  have h: "hdev ?h = Some 0" by (simp add: pad_hwdata_def)
  have early: "rumble_timer 999 True ?w 0 ?h = Inr (?w, ?h)"
    by (simp add: rumble_timer_def pad_hwdata_def)
  have late: "rumble_timer 1001 True ?w 0 ?h = Inr (?w1, ?h1)"
    by (simp add: rumble_timer_def xboxjoy_rumble_def rumble_packet_def xbox_one_def
        stop_packet_def example_defs)
  have p: "xboxjoy_parse_input_data (Some (opened_dev XBOXONE)) (raw_data ?h) =
     Some \<lparr> wButtons = 0, bLeftTrigger = 0, bRightTrigger = 0,
            sThumbLX = 0, sThumbLY = 0, sThumbRX = 0, sThumbRY = 0 \<rparr>"
    by (simp add: pad_hwdata_def parse_zero)
  have before: "SDL_XBOX_JoystickUpdate 999 True ?w (Some 0) = Inr (?w, [])"
    by (subst update_opened_pad [OF h early p])
       (simp add: opened_pad_def pad_joystick_def diff_defs fun_eq_iff)
  have after: "SDL_XBOX_JoystickUpdate 1001 True ?w (Some 0) =
      Inr (opened_pad XBOXONE (\<lambda>i. 0) ?h1 [(0, start_packet), (0, stop_packet)], [])"
    by (subst update_opened_pad [OF h late p])
       (simp add: opened_pad_def pad_joystick_def diff_defs fun_eq_iff)
  have again: "SDL_XBOX_JoystickRumble 1002 True
      (opened_pad XBOXONE (\<lambda>i. 0) ?h1 [(0, start_packet), (0, stop_packet)])
      0 0x8000 0x4000 500 =
     Inr (0, opened_pad XBOXONE (\<lambda>i. 0) (pad_hwdata zero_report (0x8000, 0x4000) 1502)
               [(0, start_packet), (0, stop_packet)])"
    by (simp add: SDL_XBOX_JoystickRumble_def example_defs)
  from first before after again show ?thesis by simp
qed

text \<open>
  C5. For every magnitude pair and every valid device pointer the encoder writes
  the family's template with the magnitudes at fixed offsets: the high byte of
  each for Xbox 360 wireless (offsets 5, 6) and wired (offsets 3, 4); both bytes
  of each, low-frequency magnitude first and low byte first, for the original
  Xbox (offsets 2 to 5); each magnitude divided by 655, a number from 0 to 100,
  for Xbox One (offsets 8, 9). It returns 0 when the transport accepts the write
  and -1 when it does not. For any other family tag it writes nothing and
  returns -1.
\<close>

theorem rumble_packet_layout:
  assumes "p < length (devs w)" and "dev_type (devs w ! p) = t"
  shows "xboxjoy_rumble tx_ok w p low high =
     (case t of
        XBOX360_WIRELESS \<Rightarrow>
          Inr (if tx_ok then 0 else - 1,
               w\<lparr>wire := wire w @
                  [(p, [0x00, 0x01, 0x0F, 0xC0, 0x00,
                        ucast (drop_bit 8 low), ucast (drop_bit 8 high), 0x00])]\<rparr>)
      | XBOX360_WIRED \<Rightarrow>
          Inr (if tx_ok then 0 else - 1,
               w\<lparr>wire := wire w @
                  [(p, [0x00, 0x08, 0x00,
                        ucast (drop_bit 8 low), ucast (drop_bit 8 high), 0x00, 0x00, 0x00])]\<rparr>)
      | XBOXOG_CONTROLLER \<Rightarrow>
          Inr (if tx_ok then 0 else - 1,
               w\<lparr>wire := wire w @
                  [(p, [0x00, 0x06, ucast low, ucast (drop_bit 8 low),
                        ucast high, ucast (drop_bit 8 high)])]\<rparr>)
      | XBOXONE \<Rightarrow>
          Inr (if tx_ok then 0 else - 1,
               w\<lparr>wire := wire w @
                  [(p, [0x09, 0x00, 0x00, 0x09, 0x00, 0x0f, 0x00, 0x00,
                        ucast (low div 655), ucast (high div 655), 0xFF, 0x00, 0xEB])]\<rparr>)
      | OTHER_HID n \<Rightarrow> Inr (- 1, w)) \<and>
     unat (ucast (low div 655) :: Uint8) = unat low div 655 \<and> unat low div 655 \<le> 100 \<and>
     unat (ucast (high div 655) :: Uint8) = unat high div 655 \<and> unat high div 655 \<le> 100"
  using assms
  by (cases t)
     (simp_all add: xboxjoy_rumble_def rumble_packet_def xbox360_wireless_def xbox360_wired_def
        xbox_og_def xbox_one_def low_byte_mask percent_byte percent_bound)

theorem rumble_packet_layout_witness:
  "xboxjoy_rumble True (one_pad XBOXONE) 0 0xFFFF 0x8000 =
     Inr (0, (one_pad XBOXONE)\<lparr>wire :=
               [(0, [0x09, 0x00, 0x00, 0x09, 0x00, 0x0f, 0x00, 0x00, 100, 50, 0xFF, 0x00, 0xEB])]\<rparr>) \<and>
   xboxjoy_rumble True (one_pad XBOXOG_CONTROLLER) 0 0x1234 0xABCD =
     Inr (0, (one_pad XBOXOG_CONTROLLER)\<lparr>wire :=
               [(0, [0x00, 0x06, 0x34, 0x12, 0xCD, 0xAB])]\<rparr>) \<and>
   xboxjoy_rumble True (one_pad XBOX360_WIRED) 0 0x1234 0xABCD =
     Inr (0, (one_pad XBOX360_WIRED)\<lparr>wire :=
               [(0, [0x00, 0x08, 0x00, 0x12, 0xAB, 0x00, 0x00, 0x00])]\<rparr>) \<and>
   xboxjoy_rumble True (one_pad XBOX360_WIRELESS) 0 0x1234 0xABCD =
     Inr (0, (one_pad XBOX360_WIRELESS)\<lparr>wire :=
               [(0, [0x00, 0x01, 0x0F, 0xC0, 0x00, 0x12, 0xAB, 0x00])]\<rparr>) \<and>
   xboxjoy_rumble True (one_pad (OTHER_HID 7)) 0 0x1234 0xABCD =
     Inr (- 1, one_pad (OTHER_HID 7))"
proof -
  have p: "0 < length (devs (one_pad t))" for t
    by (simp add: one_pad_def)
  have t: "dev_type (devs (one_pad t) ! 0) = t" for t
    by (simp add: one_pad_def pad_def)
  show ?thesis
    using rumble_packet_layout [OF p [of XBOXONE] t [of XBOXONE], of True "0xFFFF" "0x8000"]
      rumble_packet_layout [OF p [of XBOXOG_CONTROLLER] t [of XBOXOG_CONTROLLER], of True "0x1234" "0xABCD"]
      rumble_packet_layout [OF p [of XBOX360_WIRED] t [of XBOX360_WIRED], of True "0x1234" "0xABCD"]
      rumble_packet_layout [OF p [of XBOX360_WIRELESS] t [of XBOX360_WIRELESS], of True "0x1234" "0xABCD"]
      rumble_packet_layout [OF p [of "OTHER_HID 7"] t [of "OTHER_HID 7"], of True "0x1234" "0xABCD"]
    by (simp add: one_pad_def)
qed

text \<open>
  C6. For every rumble request whose magnitudes equal the stored pair, the request
  returns 0 and changes nothing but the deadline of that joystick, which becomes
  \<open>now + duration_ms\<close> (modulo \<open>2^32\<close>): the wire, the device list, the
  stored pair and every other joystick stay as they were, whatever the transport
  would have answered.
\<close>

theorem same_rumble_refreshes_expiry_only:
  assumes "joys w joystick = Some j" and "hwdata j = HwLive h"
    and "current_rumble h = (low, high)"
  shows "SDL_XBOX_JoystickRumble now tx_ok w joystick low high duration_ms =
           Inr (0, w\<lparr>joys := (joys w)(joystick \<mapsto>
                  j\<lparr>hwdata := HwLive (h\<lparr>rumble_expiry := now + duration_ms\<rparr>)\<rparr>)\<rparr>)"
  using assms by (simp add: SDL_XBOX_JoystickRumble_def)

theorem same_rumble_witness:
  "SDL_XBOX_JoystickRumble 0xFFFFFF00 False
      (opened_pad XBOXONE (\<lambda>i. 0) (pad_hwdata zero_report (0x8000, 0x4000) 7) []) 0
      0x8000 0x4000 0x200 =
     Inr (0, opened_pad XBOXONE (\<lambda>i. 0) (pad_hwdata zero_report (0x8000, 0x4000) 0x100) [])"
proof -
  let ?h = "pad_hwdata zero_report (0x8000, 0x4000) 7"
  let ?w = "opened_pad XBOXONE (\<lambda>i. 0) ?h []"
  have a: "joys ?w 0 = Some (pad_joystick (\<lambda>i. 0) ?h)" by (simp add: opened_pad_def)
  have b: "hwdata (pad_joystick (\<lambda>i. 0) ?h) = HwLive ?h" by (simp add: pad_joystick_def)
  have c: "current_rumble ?h = (0x8000, 0x4000)" by (simp add: pad_hwdata_def)
  have wrap: "(0xFFFFFF00 :: Uint32) + 0x200 = 0x100" by simp
  show ?thesis
    unfolding same_rumble_refreshes_expiry_only [OF a b c] wrap
    by (simp add: opened_pad_def pad_joystick_def pad_hwdata_def)
qed

text \<open>
  C7. For an original Xbox device the decoder always returns a state, and in it
  the LeftShoulder flag is set exactly when report byte 9 exceeds the deadzone
  0x20 and the RightShoulder flag exactly when byte 8 does: neither flag depends
  on the button mask at bytes 2 and 3.
\<close>

theorem og_shoulders_from_analog_bytes:
  assumes "dev_type d = XBOXOG_CONTROLLER"
  shows "\<exists>xpad. xboxjoy_parse_input_data (Some d) rdata = Some xpad \<and>
           (wButtons xpad AND XINPUT_GAMEPAD_LEFT_SHOULDER \<noteq> 0 \<longleftrightarrow> rdata ! 9 > 0x20) \<and>
           (wButtons xpad AND XINPUT_GAMEPAD_RIGHT_SHOULDER \<noteq> 0 \<longleftrightarrow> rdata ! 8 > 0x20)"
  using assms og_left_shoulder [of rdata "rd16 rdata 2"] og_right_shoulder [of rdata "rd16 rdata 2"]
  by (simp add: xboxjoy_parse_input_data_def shoulder_masks BUTTON_DEADZONE_def)

theorem og_shoulders_witness:
  "\<exists>xpad. xboxjoy_parse_input_data (Some (pad XBOXOG_CONTROLLER)) og_report = Some xpad \<and>
          wButtons xpad AND XINPUT_GAMEPAD_LEFT_SHOULDER \<noteq> 0 \<and>
          wButtons xpad AND XINPUT_GAMEPAD_RIGHT_SHOULDER = 0"
proof -
  have t: "dev_type (pad XBOXOG_CONTROLLER) = XBOXOG_CONTROLLER"
    by (simp add: pad_def)
  have "og_report ! 9 > 0x20" and "\<not> og_report ! 8 > 0x20"
    by (simp_all add: og_report_def)
  with og_shoulders_from_analog_bytes [OF t, of og_report] show ?thesis
    by auto
qed

text \<open>
  C8, as amended. For every device index that is not negative and not below the
  number of connected gamepads, index resolution never yields a device: compiled
  with \<open>NDEBUG\<close> it returns NULL, and \<open>SDL_XBOX_JoystickOpen\<close> then returns
  -1 with the world unchanged (no hardware data allocated, no callback
  installed); compiled without it, both stop at \<open>assert(0)\<close>, before anything
  is written.
\<close>

theorem out_of_range_index_rejected:
  assumes "0 \<le> device_index"
    and "SDL_XBOX_JoystickGetCount (devs w) \<le> device_index"
  shows "hdev_from_device_index ndebug (devs w) device_index =
           (if ndebug then Inr None else Inl AssertFailed) \<and>
         SDL_XBOX_JoystickOpen ndebug malloc_ok w joystick device_index =
           (if ndebug then Inr (- 1, w) else Inl AssertFailed)"
proof -
  from assms have "scan_devices (devs w) 0 0 device_index = LoopExit None"
    by (intro scan_devices_out_of_range) (simp_all add: SDL_XBOX_JoystickGetCount_def)
  then show ?thesis
    by (simp add: hdev_from_device_index_def SDL_XBOX_JoystickOpen_def)
qed

theorem out_of_range_index_witness:
  "SDL_XBOX_JoystickGetCount (devs (one_pad XBOXONE)) = 1 \<and>
   hdev_from_device_index True (devs (one_pad XBOXONE)) 1 = Inr None \<and>
   SDL_XBOX_JoystickOpen True True (one_pad XBOXONE) 0 1 = Inr (- 1, one_pad XBOXONE) \<and>
   SDL_XBOX_JoystickOpen False True (one_pad XBOXONE) 0 1 = Inl AssertFailed"
proof -
  have c: "SDL_XBOX_JoystickGetCount (devs (one_pad XBOXONE)) = 1"
    by (simp add: SDL_XBOX_JoystickGetCount_def one_pad_def pad_def is_gamepad_def)
  have a: "(0::int) \<le> 1" by simp
  have b: "SDL_XBOX_JoystickGetCount (devs (one_pad XBOXONE)) \<le> 1"
    by (simp add: c)
  show ?thesis
    using out_of_range_index_rejected [OF a b, of True True 0]
      out_of_range_index_rejected [OF a b, of False True 0] c
    by simp
qed

text \<open>
  C8, as stated, fails: without \<open>NDEBUG\<close> resolution of index 0 on an empty
  device list and \<open>SDL_XBOX_JoystickOpen\<close> of index 1 with one gamepad
  connected stop at the assertion instead of reporting not-found; and with
  \<open>NDEBUG\<close> the index -1 resolves to the head of the list, gamepad or not.
\<close>

theorem out_of_range_index_asserts:
  "hdev_from_device_index False [] 0 = Inl AssertFailed \<and>
   SDL_XBOX_JoystickOpen False True (one_pad XBOXONE) 0 1 = Inl AssertFailed \<and>
   hdev_from_device_index True [pad (OTHER_HID 7)] (- 1) = Inr (Some 0)"
  by (simp add: hdev_from_device_index_def SDL_XBOX_JoystickOpen_def one_pad_def pad_def
      is_gamepad_def)

text \<open>
  C9. The notifications of one tick follow the fixed order \<open>event_order\<close>: the
  hat, then the buttons in the order of \<open>btn_map\<close>, then axes 2, 5, 0, 1, 3, 4,
  each at most once. They are a function of the decoded state and of the stored
  hat, button and axis cells alone: two joysticks that agree on those cells get
  the same sequence for the same decoded state.
\<close>

theorem update_event_order:
  "(SDL_XBOX_JoystickUpdate now tx_ok w joystick = Inr (w', evs) \<longrightarrow>
      subseq (map key_of evs) event_order) \<and>
   subseq (map key_of (snd (report_changes xpad (j, [])))) event_order \<and>
   (hats j' 0 = hats j 0 \<and>
    (\<forall>bm \<in> set btn_map. buttons j' (fst bm) = buttons j (fst bm)) \<and>
    (\<forall>a \<in> {0, 1, 2, 3, 4, 5}. axes j' a = axes j a) \<longrightarrow>
      snd (report_changes xpad (j', [])) = snd (report_changes xpad (j, [])))"
proof (intro conjI impI)
  assume "SDL_XBOX_JoystickUpdate now tx_ok w joystick = Inr (w', evs)"
  from update_events_cases [OF this] show "subseq (map key_of evs) event_order"
    by (auto simp: tick_events_order)
next
  show "subseq (map key_of (snd (report_changes xpad (j, [])))) event_order"
    by (simp add: report_changes_eq tick_events_order)
next
  assume "hats j' 0 = hats j 0 \<and>
    (\<forall>bm \<in> set btn_map. buttons j' (fst bm) = buttons j (fst bm)) \<and>
    (\<forall>a \<in> {0, 1, 2, 3, 4, 5}. axes j' a = axes j a)"
  then have "tick_events xpad j' = tick_events xpad j"
    by (intro tick_events_cells) simp_all
  then show "snd (report_changes xpad (j', [])) = snd (report_changes xpad (j, []))"
    by (simp add: report_changes_eq)
qed

theorem update_event_order_witness:
  "snd (report_changes busy_xpad (pad_joystick (\<lambda>i. 0) (pad_hwdata zero_report (0, 0) 0), [])) =
     [HatEvent 0 0x05, ButtonEvent 0 1, ButtonEvent 3 1, ButtonEvent 7 1,
      AxisEvent 2 0x8101, AxisEvent 5 0x7FFF,
      AxisEvent 0 0x7FFF, AxisEvent 1 0x7FFF, AxisEvent 3 0x0001, AxisEvent 4 0] \<and>
   subseq [HatKey 0, ButtonKey 0, ButtonKey 3, ButtonKey 7,
           AxisKey 2, AxisKey 5, AxisKey 0, AxisKey 1, AxisKey 3, AxisKey 4] event_order \<and>
   subseq [AxisKey 2] event_order"
proof -
  let ?j = "pad_joystick (\<lambda>i. 0) (pad_hwdata zero_report (0, 0) 0)"
  let ?w = "opened_pad XBOXONE (\<lambda>i. 0) (pad_hwdata one_report (0, 0) 0) []"
  note t = update_event_order [of 0 True ?w "Some 0"
      "opened_pad XBOXONE ((\<lambda>i. 0)(2 := 0x7FFF)) (pad_hwdata one_report (0, 0) 0) []"
      "[AxisEvent 2 0x7FFF]" busy_xpad ?j ?j]
  have "subseq (map key_of [AxisEvent 2 0x7FFF]) event_order"
    using t tick_reaches [of 0 True] by blast
  moreover have "subseq (map key_of (snd (report_changes busy_xpad (?j, [])))) event_order"
    using t by blast
  ultimately show ?thesis
    by (simp add: busy_events)
qed

text \<open>
  C10. For every report that passes the validator, on a joystick whose buffer has
  the \<open>MAX_PACKET_SIZE\<close> bytes of the array, the callback returns without a
  fault; the buffer keeps its length; its first \<open>min data_len 32\<close> bytes are
  the first bytes received and the bytes after them are unchanged. A length above
  32 therefore copies exactly 32 bytes and a shorter one exactly \<open>data_len\<close>.
\<close>

theorem read_callback_copy_capped:
  assumes "0 \<le> sint status" and "p < length (devs w)"
    and "user_data (devs w ! p) = Some a"
    and "is_button_report (dev_type (devs w ! p)) rdata"
    and "joys w a = Some joy" and "hwdata joy = HwLive h"
    and "length (raw_data h) = MAX_PACKET_SIZE"
  shows "\<exists>buf.
           xboxjoy_int_read_callback w (Some p) ep_addr status rdata data_len =
             Inr (w\<lparr>joys := (joys w)(a \<mapsto> joy\<lparr>hwdata := HwLive (h\<lparr>raw_data := buf\<rparr>)\<rparr>)\<rparr>) \<and>
           length buf = MAX_PACKET_SIZE \<and>
           (\<forall>i < min (unat data_len) MAX_PACKET_SIZE. buf ! i = rdata i) \<and>
           (\<forall>i. min (unat data_len) MAX_PACKET_SIZE \<le> i \<and> i < MAX_PACKET_SIZE \<longrightarrow>
                buf ! i = raw_data h ! i)"
proof -
  let ?n = "if unat data_len > MAX_PACKET_SIZE then MAX_PACKET_SIZE else unat data_len"
  let ?buf = "map rdata [0..<?n] @ drop ?n (raw_data h)"
  have n: "?n = min (unat data_len) MAX_PACKET_SIZE" by simp
  have le: "?n \<le> length (raw_data h)" using assms(7) by simp
  then have cp: "SDL_memcpy (raw_data h) rdata ?n = Inr ?buf"
    by (simp add: SDL_memcpy_def)
  have run: "xboxjoy_int_read_callback w (Some p) ep_addr status rdata data_len =
             Inr (w\<lparr>joys := (joys w)(a \<mapsto> joy\<lparr>hwdata := HwLive (h\<lparr>raw_data := ?buf\<rparr>)\<rparr>)\<rparr>)"
    using assms(1-6) cp
    by (simp add: xboxjoy_int_read_callback_def del: upt_Suc split del: if_split)
  have len: "length ?buf = MAX_PACKET_SIZE"
    using le assms(7) by simp
  have lo: "\<forall>i < min (unat data_len) MAX_PACKET_SIZE. ?buf ! i = rdata i"
    unfolding n [symmetric] by (simp add: nth_append)
  have hi: "\<forall>i. min (unat data_len) MAX_PACKET_SIZE \<le> i \<and> i < MAX_PACKET_SIZE \<longrightarrow>
                ?buf ! i = raw_data h ! i"
    unfolding n [symmetric] using assms(7) by (auto simp: nth_append)
  from run len lo hi show ?thesis by blast
qed

theorem read_callback_copy_witness:
  "\<exists>buf. xboxjoy_int_read_callback
            (opened_pad XBOXONE (\<lambda>i. 0) (pad_hwdata zero_report (0, 0) 0) [])
            (Some 0) 0x81 0 long_report 40 =
          Inr (opened_pad XBOXONE (\<lambda>i. 0) (pad_hwdata buf (0, 0) 0) []) \<and>
         length buf = 32 \<and> buf ! 0 = 0x20 \<and> buf ! 31 = 31"
proof -
  let ?h = "pad_hwdata zero_report (0, 0) 0"
  let ?w = "opened_pad XBOXONE (\<lambda>i. 0) ?h []"
  have 1: "0 \<le> sint (0 :: Sint32)" by simp
  have 2: "0 < length (devs ?w)" by (simp add: opened_pad_def)
  have 3: "user_data (devs ?w ! 0) = Some 0" by (simp add: opened_pad_def opened_dev_def)
  have 4: "is_button_report (dev_type (devs ?w ! 0)) long_report"
    by (simp add: opened_pad_def opened_dev_def pad_def is_button_report_def long_report_def)
  have 5: "joys ?w 0 = Some (pad_joystick (\<lambda>i. 0) ?h)" by (simp add: opened_pad_def)
  have 6: "hwdata (pad_joystick (\<lambda>i. 0) ?h) = HwLive ?h" by (simp add: pad_joystick_def)
  have 7: "length (raw_data ?h) = MAX_PACKET_SIZE"
    by (simp add: pad_hwdata_def zero_report_def MAX_PACKET_SIZE_def)
  obtain buf where
    r: "xboxjoy_int_read_callback ?w (Some 0) 0x81 0 long_report 40 =
          Inr (?w\<lparr>joys := (joys ?w)(0 \<mapsto>
                 (pad_joystick (\<lambda>i. 0) ?h)\<lparr>hwdata := HwLive (?h\<lparr>raw_data := buf\<rparr>)\<rparr>)\<rparr>)"
    and l: "length buf = MAX_PACKET_SIZE"
    and c: "\<forall>i < min (unat (40 :: Uint32)) MAX_PACKET_SIZE. buf ! i = long_report i"
    using read_callback_copy_capped [OF 1 2 3 4 5 6 7, of "0x81" 40] by blast
  have "buf ! 0 = long_report 0" "buf ! 31 = long_report 31"
    using c by (simp_all add: MAX_PACKET_SIZE_def)
  then have "buf ! 0 = 0x20" "buf ! 31 = 31"
    by (simp_all add: long_report_def)
  moreover have "xboxjoy_int_read_callback ?w (Some 0) 0x81 0 long_report 40 =
          Inr (opened_pad XBOXONE (\<lambda>i. 0) (pad_hwdata buf (0, 0) 0) [])"
    unfolding r by (simp add: opened_pad_def pad_joystick_def pad_hwdata_def)
  moreover have "length buf = 32" using l by (simp add: MAX_PACKET_SIZE_def)
  ultimately show ?thesis by blast
qed

end
